theory Spec2Isabelle
  imports Complex_Main "HOL-Library.Word" "HOL-Library.Signed_Division"
begin

unbundle bit_operations_syntax

section \<open>Numbers of the source\<close>

text \<open>
  The engine is TypeScript; every \<^verbatim>\<open>number\<close> is an IEEE double. The model uses
  \<^item> \<^typ>\<open>int\<close> for grid coordinates, grid sizes, scores, tick rates and the PRNG seed
    (integer-valued doubles; exact below \<open>2 ^ 53\<close> in absolute value),
  \<^item> \<^typ>\<open>32 word\<close> for the results of the 32-bit operators
    (\<^verbatim>\<open><<\<close>, \<^verbatim>\<open>>>>\<close>, \<^verbatim>\<open>^\<close>, \<^verbatim>\<open>|\<close>, \<^verbatim>\<open>&\<close>, \<^verbatim>\<open>Math.imul\<close>),
  \<^item> \<^typ>\<open>real\<close> for clock readings, probabilities and the PRNG's output in \<open>[0, 1)\<close>.
  \<^verbatim>\<open>NaN\<close> and the infinities are outside the model.
\<close>

type_synonym int32 = "32 word"

text \<open>\<^verbatim>\<open>ToInt32\<close> of an integer-valued number: reduction modulo \<open>2 ^ 32\<close>.\<close>

definition ToInt32 :: "int \<Rightarrow> int32" where
  "ToInt32 n = word_of_int n"

section \<open>types/index.ts\<close>

record Vector2 =
  xpos :: int
  ypos :: int

record SnakeSegment = Vector2 +
  prevX :: int
  prevY :: int

datatype Direction = UP | DOWN | LEFT | RIGHT

fun DIRECTION_VECTORS :: "Direction \<Rightarrow> Vector2" where
  "DIRECTION_VECTORS UP = \<lparr>xpos = 0, ypos = -1\<rparr>"
| "DIRECTION_VECTORS DOWN = \<lparr>xpos = 0, ypos = 1\<rparr>"
| "DIRECTION_VECTORS LEFT = \<lparr>xpos = -1, ypos = 0\<rparr>"
| "DIRECTION_VECTORS RIGHT = \<lparr>xpos = 1, ypos = 0\<rparr>"

fun OPPOSITE_DIRECTION :: "Direction \<Rightarrow> Direction" where
  "OPPOSITE_DIRECTION UP = DOWN"
| "OPPOSITE_DIRECTION DOWN = UP"
| "OPPOSITE_DIRECTION LEFT = RIGHT"
| "OPPOSITE_DIRECTION RIGHT = LEFT"

datatype FoodType = normal | special | speed | slow

text \<open>The optional field \<^verbatim>\<open>expiresAt?: number\<close> is \<open>None\<close> when it is \<^verbatim>\<open>undefined\<close>.\<close>

record Food = Vector2 +
  ftype :: FoodType
  spawnTime :: real
  expiresAt :: "real option"

datatype GamePhase = boot | menu | playing | paused | gameover

datatype GameMode = classic | daily | zen

section \<open>engine/rng.ts\<close>

record SeededRNG =
  seed :: int

text \<open>
  \<^verbatim>\<open>hashString\<close>: the loop body \<^verbatim>\<open>hash = ((hash << 5) - hash) + char; hash = hash & hash\<close>
  leaves a 32-bit integer in \<^verbatim>\<open>hash\<close> after every round, so the accumulator is a word.
  \<^verbatim>\<open>charCodeAt\<close> is the code unit of the character; strings are lists of 8-bit
  characters here, which covers the ASCII seeds the engine builds. \<^verbatim>\<open>Math.abs\<close> is taken
  of the signed reading of the word.
\<close>

fun hashString_loop :: "int32 \<Rightarrow> string \<Rightarrow> int32" where
  "hashString_loop hash [] = hash"
| "hashString_loop hash (c # cs) =
     hashString_loop ((push_bit 5 hash - hash) + of_char c) cs"

definition hashString :: "string \<Rightarrow> int" where
  "hashString str = \<bar>sint (hashString_loop 0 str)\<bar>"

datatype seed_arg = NumSeed int | StrSeed string

fun SeededRNG_new :: "seed_arg \<Rightarrow> SeededRNG" where
  "SeededRNG_new (StrSeed str) = \<lparr>seed = hashString str\<rparr>"
| "SeededRNG_new (NumSeed n) = \<lparr>seed = n\<rparr>"

text \<open>
  \<^verbatim>\<open>next\<close> (mulberry32). The field \<^verbatim>\<open>seed\<close> is a number and is not reduced when the
  constant is added; only the local \<^verbatim>\<open>t\<close> is cut to 32 bits by the bit operators.
  \<open>next_u32\<close> is the unsigned numerator \<^verbatim>\<open>(t ^ (t >>> 14)) >>> 0\<close>.
\<close>

definition next_u32 :: "SeededRNG \<Rightarrow> int32 \<times> SeededRNG" where
  "next_u32 r =
     (let s = seed r + 0x6d2b79f5;
          t0 = ToInt32 s;
          t1 = (t0 XOR drop_bit 15 t0) * (t0 OR 1);
          t2 = t1 XOR (t1 + (t1 XOR drop_bit 7 t1) * (t1 OR 61))
      in (t2 XOR drop_bit 14 t2, r\<lparr>seed := s\<rparr>))"

definition SeededRNG_next :: "SeededRNG \<Rightarrow> real \<times> SeededRNG" where
  "SeededRNG_next r = (case next_u32 r of (u, r') \<Rightarrow> (real (unat u) / 4294967296, r'))"

text \<open>
  \<^verbatim>\<open>pick\<close>: \<^verbatim>\<open>array[Math.floor(this.next() * array.length)]\<close>; an index outside the
  array reads \<^verbatim>\<open>undefined\<close>, here \<open>None\<close>. The product is taken in exact arithmetic;
  the double product of the source is exact as well for arrays shorter than \<open>2 ^ 21\<close>,
  since the value of \<^verbatim>\<open>next()\<close> is a multiple of \<open>2 ^ -32\<close> below \<open>1\<close>.
\<close>

definition SeededRNG_pick :: "SeededRNG \<Rightarrow> 'a list \<Rightarrow> 'a option \<times> SeededRNG" where
  "SeededRNG_pick r array =
     (case SeededRNG_next r of (v, r') \<Rightarrow>
        (let i = nat \<lfloor>v * real (length array)\<rfloor>
         in (if i < length array then Some (array ! i) else None, r')))"

section \<open>engine/collision.ts\<close>

definition checkWallCollision :: "'a Vector2_scheme \<Rightarrow> int \<Rightarrow> int \<Rightarrow> bool" where
  "checkWallCollision pos gridWidth gridHeight \<longleftrightarrow>
     xpos pos < 0 \<or> xpos pos \<ge> gridWidth \<or> ypos pos < 0 \<or> ypos pos \<ge> gridHeight"

text \<open>The loop of \<^verbatim>\<open>checkSelfCollision\<close> starts at index \<^verbatim>\<open>skipFirst\<close>.\<close>

fun selfCollision_loop :: "'a Vector2_scheme \<Rightarrow> 'b Vector2_scheme list \<Rightarrow> bool" where
  "selfCollision_loop head [] = False"
| "selfCollision_loop head (b # bs) =
     (if xpos b = xpos head \<and> ypos b = ypos head then True else selfCollision_loop head bs)"

definition checkSelfCollision :: "'a Vector2_scheme \<Rightarrow> 'b Vector2_scheme list \<Rightarrow> nat \<Rightarrow> bool" where
  "checkSelfCollision head body skipFirst = selfCollision_loop head (drop skipFirst body)"

definition getNextHeadPosition :: "'a Vector2_scheme \<Rightarrow> Vector2 \<Rightarrow> Vector2" where
  "getNextHeadPosition current direction =
     \<lparr>xpos = xpos current + xpos direction, ypos = ypos current + ypos direction\<rparr>"

text \<open>
  \<^verbatim>\<open>%\<close> is the remainder with the sign of the dividend, \<open>smod\<close> on \<^typ>\<open>int\<close>.
  For a divisor \<open>0\<close> the source yields \<^verbatim>\<open>NaN\<close>, which \<^typ>\<open>int\<close> does not have:
  the statements about \<open>wrapPosition\<close> are for non-zero grid sizes.
\<close>

definition wrapPosition :: "'a Vector2_scheme \<Rightarrow> int \<Rightarrow> int \<Rightarrow> Vector2" where
  "wrapPosition pos gridWidth gridHeight =
     \<lparr>xpos = ((xpos pos smod gridWidth) + gridWidth) smod gridWidth,
      ypos = ((ypos pos smod gridHeight) + gridHeight) smod gridHeight\<rparr>"

section \<open>engine/spawn.ts\<close>

text \<open>
  \<^verbatim>\<open>SpawnConfig\<close>, and \<^verbatim>\<open>Partial<SpawnConfig>\<close> with an absent key as \<open>None\<close>.
  The fields carry a prefix because the game state has fields of the same names.
\<close>

record SpawnConfig =
  cfg_gridWidth :: int
  cfg_gridHeight :: int
  cfg_specialChance :: real
  cfg_speedChance :: real
  cfg_slowChance :: real
  cfg_specialDuration :: real

record PartialSpawnConfig =
  opt_gridWidth :: "int option"
  opt_gridHeight :: "int option"
  opt_specialChance :: "real option"
  opt_speedChance :: "real option"
  opt_slowChance :: "real option"
  opt_specialDuration :: "real option"

definition DEFAULT_CONFIG :: SpawnConfig where
  "DEFAULT_CONFIG =
     \<lparr>cfg_gridWidth = 20, cfg_gridHeight = 20, cfg_specialChance = 8 / 100,
      cfg_speedChance = 5 / 100, cfg_slowChance = 5 / 100, cfg_specialDuration = 8000\<rparr>"

text \<open>The spread \<^verbatim>\<open>{ ...DEFAULT_CONFIG, ...config }\<close>.\<close>

definition merge_config :: "PartialSpawnConfig \<Rightarrow> SpawnConfig" where
  "merge_config config =
     \<lparr>cfg_gridWidth = (case opt_gridWidth config of Some v \<Rightarrow> v | None \<Rightarrow> cfg_gridWidth DEFAULT_CONFIG),
      cfg_gridHeight = (case opt_gridHeight config of Some v \<Rightarrow> v | None \<Rightarrow> cfg_gridHeight DEFAULT_CONFIG),
      cfg_specialChance = (case opt_specialChance config of Some v \<Rightarrow> v | None \<Rightarrow> cfg_specialChance DEFAULT_CONFIG),
      cfg_speedChance = (case opt_speedChance config of Some v \<Rightarrow> v | None \<Rightarrow> cfg_speedChance DEFAULT_CONFIG),
      cfg_slowChance = (case opt_slowChance config of Some v \<Rightarrow> v | None \<Rightarrow> cfg_slowChance DEFAULT_CONFIG),
      cfg_specialDuration = (case opt_specialDuration config of Some v \<Rightarrow> v | None \<Rightarrow> cfg_specialDuration DEFAULT_CONFIG)\<rparr>"

text \<open>
  \<^verbatim>\<open>coordKey\<close> is the template string \<^verbatim>\<open>`${x},${y}`\<close>: the decimal numerals of the two
  integers with a comma between them.
\<close>

definition digit_char :: "nat \<Rightarrow> char" where
  "digit_char d = char_of (48 + d)"

fun nat_str :: "nat \<Rightarrow> string" where
  "nat_str n = (if n < 10 then [digit_char n] else nat_str (n div 10) @ [digit_char (n mod 10)])"

declare nat_str.simps [simp del]

definition num_str :: "int \<Rightarrow> string" where
  "num_str i = (if i < 0 then CHR ''-'' # nat_str (nat (- i)) else nat_str (nat i))"

definition coordKey :: "int \<Rightarrow> int \<Rightarrow> string" where
  "coordKey x y = num_str x @ '','' @ num_str y"

text \<open>The \<^verbatim>\<open>Set<string>\<close> filled by the first loop of \<^verbatim>\<open>getEmptyCells\<close>.\<close>

fun occupiedSet_loop :: "string set \<Rightarrow> 'a Vector2_scheme list \<Rightarrow> string set" where
  "occupiedSet_loop occupiedSet [] = occupiedSet"
| "occupiedSet_loop occupiedSet (pos # rest) =
     occupiedSet_loop (insert (coordKey (xpos pos) (ypos pos)) occupiedSet) rest"

text \<open>The inner loop \<^verbatim>\<open>for (let y = 0; y < gridHeight; y++)\<close> and the outer loop over \<^verbatim>\<open>x\<close>.\<close>

function emptyCells_inner ::
  "string set \<Rightarrow> int \<Rightarrow> int \<Rightarrow> int \<Rightarrow> Vector2 list \<Rightarrow> Vector2 list" where
  "emptyCells_inner occupiedSet gridHeight x y emptyCells =
     (if y < gridHeight
      then emptyCells_inner occupiedSet gridHeight x (y + 1)
             (if coordKey x y \<notin> occupiedSet
              then emptyCells @ [\<lparr>xpos = x, ypos = y\<rparr>] else emptyCells)
      else emptyCells)"
  by pat_completeness auto
termination
  by (relation "measure (\<lambda>(occ, h, x, y, acc). nat (h - y))") auto

declare emptyCells_inner.simps [simp del]

function emptyCells_outer ::
  "string set \<Rightarrow> int \<Rightarrow> int \<Rightarrow> int \<Rightarrow> Vector2 list \<Rightarrow> Vector2 list" where
  "emptyCells_outer occupiedSet gridWidth gridHeight x emptyCells =
     (if x < gridWidth
      then emptyCells_outer occupiedSet gridWidth gridHeight (x + 1)
             (emptyCells_inner occupiedSet gridHeight x 0 emptyCells)
      else emptyCells)"
  by pat_completeness auto
termination
  by (relation "measure (\<lambda>(occ, w, h, x, acc). nat (w - x))") auto

declare emptyCells_outer.simps [simp del]

definition getEmptyCells :: "int \<Rightarrow> int \<Rightarrow> 'a Vector2_scheme list \<Rightarrow> Vector2 list" where
  "getEmptyCells gridWidth gridHeight occupied =
     emptyCells_outer (occupiedSet_loop {} occupied) gridWidth gridHeight 0 []"

datatype error = TypeError

text \<open>
  \<^verbatim>\<open>spawnFood\<close>. The clock reading \<^verbatim>\<open>performance.now()\<close> is the argument \<open>now\<close>; the
  generator is passed in and returned. Reading \<^verbatim>\<open>pos.x\<close> of an \<^verbatim>\<open>undefined\<close> pick
  throws a \<^verbatim>\<open>TypeError\<close>.
\<close>

definition spawnFood ::
  "SeededRNG \<Rightarrow> 'a Vector2_scheme list \<Rightarrow> PartialSpawnConfig \<Rightarrow> int \<Rightarrow> real
     \<Rightarrow> error + (Food option \<times> SeededRNG)" where
  "spawnFood rng snake config currentScore now =
     (let cfg = merge_config config;
          emptyCells = getEmptyCells (cfg_gridWidth cfg) (cfg_gridHeight cfg) snake
      in if length emptyCells = 0 then Inr (None, rng)
         else
           (case SeededRNG_pick rng emptyCells of (pick, rng1) \<Rightarrow>
           (case SeededRNG_next rng1 of (roll, rng2) \<Rightarrow>
              (let type =
                 (if currentScore > 30
                  then (if roll < cfg_specialChance cfg then special
                        else if roll < cfg_specialChance cfg + cfg_speedChance cfg then speed
                        else if roll < cfg_specialChance cfg + cfg_speedChance cfg + cfg_slowChance cfg
                        then slow
                        else normal)
                  else normal)
               in (case pick of
                     None \<Rightarrow> Inl TypeError
                   | Some pos \<Rightarrow>
                       Inr (Some \<lparr>xpos = xpos pos, ypos = ypos pos, ftype = type, spawnTime = now,
                                  expiresAt = (if type \<noteq> normal
                                               then Some (now + cfg_specialDuration cfg) else None)\<rparr>,
                            rng2))))))"

text \<open>
  \<^verbatim>\<open>isFoodValid\<close> tests \<^verbatim>\<open>food.expiresAt && ...\<close>: the field counts as present when it
  is truthy, that is, defined and not \<open>0\<close>.
\<close>

fun truthy :: "real option \<Rightarrow> bool" where
  "truthy None = False"
| "truthy (Some v) = (v \<noteq> 0)"

definition isFoodValid :: "Food \<Rightarrow> real \<Rightarrow> bool" where
  "isFoodValid food currentTime =
     (if truthy (expiresAt food) \<and> currentTime > the (expiresAt food) then False else True)"

fun baseScores :: "FoodType \<Rightarrow> int" where
  "baseScores normal = 10"
| "baseScores special = 50"
| "baseScores speed = 30"
| "baseScores slow = 20"

definition getFoodScore :: "FoodType \<Rightarrow> int \<Rightarrow> int" where
  "getFoodScore foodType combo = baseScores foodType + combo * 5"

definition isOnSnake :: "'a Vector2_scheme \<Rightarrow> 'b Vector2_scheme list \<Rightarrow> bool" where
  "isOnSnake pos snake = (\<exists>seg \<in> set snake. xpos seg = xpos pos \<and> ypos seg = ypos pos)"

section \<open>engine/rng.ts: the daily seed\<close>

text \<open>
  The calendar date read by \<^verbatim>\<open>getDailySeed\<close>: \<^verbatim>\<open>getFullYear()\<close>, \<^verbatim>\<open>getMonth()\<close>
  (January is \<open>0\<close>) and \<^verbatim>\<open>getDate()\<close>.
\<close>

record Date =
  getFullYear :: int
  getMonth :: int
  getDate :: int

definition padStart2 :: "string \<Rightarrow> string" where
  "padStart2 str = replicate (2 - length str) CHR ''0'' @ str"

definition getDailySeed :: "Date \<Rightarrow> string" where
  "getDailySeed date =
     ''daily-'' @ num_str (getFullYear date) @ padStart2 (num_str (getMonth date + 1))
       @ padStart2 (num_str (getDate date))"

text \<open>\<^verbatim>\<open>createDefaultRNG\<close> seeds with \<^verbatim>\<open>Date.now()\<close>, an argument here.\<close>

definition createDefaultRNG :: "int \<Rightarrow> SeededRNG" where
  "createDefaultRNG date_now = SeededRNG_new (NumSeed date_now)"

section \<open>engine/GameEngine.ts\<close>

definition COMBO_WINDOW_MS :: real where "COMBO_WINDOW_MS = 2500"
definition GRACE_PERIOD_TICKS :: int where "GRACE_PERIOD_TICKS = 3"
definition MIN_TICK_RATE :: int where "MIN_TICK_RATE = 50"
definition SPEED_INCREMENT_SCORE :: int where "SPEED_INCREMENT_SCORE = 50"
definition SPEED_INCREMENT_MS :: int where "SPEED_INCREMENT_MS = 3"

fun BASE_TICK_RATES :: "GameMode \<Rightarrow> int" where
  "BASE_TICK_RATES classic = 100"
| "BASE_TICK_RATES daily = 100"
| "BASE_TICK_RATES zen = 150"

text \<open>
  The engine object: the fields of \<^verbatim>\<open>GameState\<close> (the member \<^verbatim>\<open>state\<close>), followed by
  the members \<^verbatim>\<open>rng\<close> and \<^verbatim>\<open>poppedTail\<close>. The particle list and the shake magnitude
  (floating-point visual effects fed by \<^verbatim>\<open>Math.random\<close>) and the listener set are left out:
  no field modelled here is computed from them, and emitted events are not recorded.
\<close>

record GameEngine =
  phase :: GamePhase
  mode :: GameMode
  score :: int
  highScore :: int
  combo :: int
  lastEatTime :: real
  comboWindow :: real
  snake :: "SnakeSegment list"
  direction :: Direction
  nextDirection :: "Direction option"
  directionBuffer :: "Direction list"
  food :: "Food option"
  gridWidth :: int
  gridHeight :: int
  tickRate :: int
  baseTickRate :: int
  tickCount :: int
  gracePeriodTicks :: int
  dailySeed :: string
  rng :: SeededRNG
  poppedTail :: "SnakeSegment option"

text \<open>
  What a call reads from outside the engine. At construction and in \<^verbatim>\<open>startGame\<close>:
  \<^verbatim>\<open>Date.now()\<close>, the calendar date, the high score found in local storage by
  \<^verbatim>\<open>loadHighScore\<close>, and the clock reading inside \<^verbatim>\<open>spawnFood\<close>.
\<close>

record start_env =
  date_now :: int
  today :: Date
  stored_highScore :: int
  spawn_now :: real

text \<open>
  The readings of \<^verbatim>\<open>performance.now()\<close> during one \<^verbatim>\<open>tick\<close>, in the order of the
  program text: in \<^verbatim>\<open>tick\<close> itself, in the \<^verbatim>\<open>spawnFood\<close> that replaces expired food,
  in \<^verbatim>\<open>eatFood\<close>, and in the \<^verbatim>\<open>spawnFood\<close> called by \<^verbatim>\<open>eatFood\<close>.
\<close>

record tick_clock =
  now_tick :: real
  now_respawn :: real
  now_eat :: real
  now_eat_spawn :: real

definition createInitialState :: "start_env \<Rightarrow> GameEngine" where
  "createInitialState env =
     \<lparr>phase = boot, mode = classic, score = 0, highScore = stored_highScore env, combo = 0,
      lastEatTime = 0, comboWindow = COMBO_WINDOW_MS, snake = [], direction = RIGHT,
      nextDirection = None, directionBuffer = [], food = None, gridWidth = 20, gridHeight = 20,
      tickRate = BASE_TICK_RATES classic, baseTickRate = BASE_TICK_RATES classic, tickCount = 0,
      gracePeriodTicks = GRACE_PERIOD_TICKS, dailySeed = getDailySeed (today env),
      rng = createDefaultRNG (date_now env), poppedTail = None\<rparr>"

definition setGridSize :: "int \<Rightarrow> int \<Rightarrow> GameEngine \<Rightarrow> GameEngine" where
  "setGridSize width height s = s\<lparr>gridWidth := width, gridHeight := height\<rparr>"

text \<open>The object literal \<^verbatim>\<open>{ gridWidth, gridHeight }\<close> that the engine passes to \<^verbatim>\<open>spawnFood\<close>.\<close>

definition grid_config :: "GameEngine \<Rightarrow> PartialSpawnConfig" where
  "grid_config s =
     \<lparr>opt_gridWidth = Some (gridWidth s), opt_gridHeight = Some (gridHeight s),
      opt_specialChance = None, opt_speedChance = None, opt_slowChance = None,
      opt_specialDuration = None\<rparr>"

definition startGame :: "GameMode \<Rightarrow> start_env \<Rightarrow> GameEngine \<Rightarrow> error + GameEngine" where
  "startGame m env s =
     (let s1 = (if m = daily
                then s\<lparr>dailySeed := getDailySeed (today env),
                       rng := SeededRNG_new (StrSeed (getDailySeed (today env)))\<rparr>
                else s\<lparr>rng := createDefaultRNG (date_now env)\<rparr>);
          s2 = s1\<lparr>mode := m, score := 0, highScore := stored_highScore env, combo := 0,
                  lastEatTime := 0, direction := RIGHT, nextDirection := None,
                  directionBuffer := [], tickCount := 0, gracePeriodTicks := GRACE_PERIOD_TICKS,
                  baseTickRate := BASE_TICK_RATES m, tickRate := BASE_TICK_RATES m\<rparr>;
          startX = gridWidth s2 div 2;
          startY = gridHeight s2 div 2;
          s3 = s2\<lparr>snake :=
                   [\<lparr>xpos = startX, ypos = startY, prevX = startX, prevY = startY\<rparr>,
                    \<lparr>xpos = startX - 1, ypos = startY, prevX = startX - 1, prevY = startY\<rparr>,
                    \<lparr>xpos = startX - 2, ypos = startY, prevX = startX - 2, prevY = startY\<rparr>]\<rparr>
      in (case spawnFood (rng s3) (snake s3) (grid_config s3) 0 (spawn_now env) of
            Inl e \<Rightarrow> Inl e
          | Inr (fd, rng') \<Rightarrow>
              Inr (s3\<lparr>food := fd, rng := rng', poppedTail := None, phase := playing\<rparr>)))"

definition goToMenu :: "GameEngine \<Rightarrow> GameEngine" where
  "goToMenu s = s\<lparr>phase := menu\<rparr>"

definition pause :: "GameEngine \<Rightarrow> GameEngine" where
  "pause s = (if phase s = playing then s\<lparr>phase := paused\<rparr> else s)"

definition resume :: "GameEngine \<Rightarrow> GameEngine" where
  "resume s = (if phase s = paused then s\<lparr>phase := playing\<rparr> else s)"

definition togglePause :: "GameEngine \<Rightarrow> GameEngine" where
  "togglePause s =
     (if phase s = playing then pause s else if phase s = paused then resume s else s)"

definition setDirection :: "Direction \<Rightarrow> GameEngine \<Rightarrow> GameEngine" where
  "setDirection dir s =
     (if phase s \<noteq> playing then s
      else
        (let refDir = (if length (directionBuffer s) > 0
                       then directionBuffer s ! (length (directionBuffer s) - 1)
                       else direction s)
         in if OPPOSITE_DIRECTION dir = refDir then s
            else if dir = refDir then s
            else if length (directionBuffer s) < 2
            then s\<lparr>directionBuffer := directionBuffer s @ [dir]\<rparr>
            else s))"

text \<open>
  \<^verbatim>\<open>eatFood\<close>, in the steps its comments name: update combo, calculate score and update
  high score, speed food effect, slow food effect, gradual speed increase based on score;
  then the tail pop is cleared and new food is spawned.
\<close>

definition updateCombo :: "real \<Rightarrow> GameEngine \<Rightarrow> GameEngine" where
  "updateCombo now s =
     s\<lparr>combo := (if now - lastEatTime s < comboWindow s then combo s + 1 else 1),
       lastEatTime := now\<rparr>"

definition updateScore :: "FoodType \<Rightarrow> GameEngine \<Rightarrow> GameEngine" where
  "updateScore foodType s =
     (let scoreGain = getFoodScore foodType (combo s);
          s1 = s\<lparr>score := score s + scoreGain\<rparr>
      in if score s1 > highScore s1 then s1\<lparr>highScore := score s1\<rparr> else s1)"

definition speedFoodEffect :: "FoodType \<Rightarrow> GameEngine \<Rightarrow> GameEngine" where
  "speedFoodEffect foodType s =
     (if foodType = speed then s\<lparr>tickRate := max MIN_TICK_RATE (tickRate s - 20)\<rparr> else s)"

definition slowFoodEffect :: "FoodType \<Rightarrow> GameEngine \<Rightarrow> GameEngine" where
  "slowFoodEffect foodType s =
     (if foodType = slow then s\<lparr>tickRate := min (baseTickRate s) (tickRate s + 30)\<rparr> else s)"

definition gradualSpeedIncrease :: "FoodType \<Rightarrow> GameEngine \<Rightarrow> GameEngine" where
  "gradualSpeedIncrease foodType s =
     (let speedLevel = score s div SPEED_INCREMENT_SCORE;
          targetTickRate = max MIN_TICK_RATE (baseTickRate s - speedLevel * SPEED_INCREMENT_MS)
      in if foodType \<noteq> slow \<and> tickRate s > targetTickRate
         then s\<lparr>tickRate := max targetTickRate (tickRate s - 2)\<rparr> else s)"

definition eatFood :: "tick_clock \<Rightarrow> GameEngine \<Rightarrow> error + GameEngine" where
  "eatFood clk s =
     (case food s of
        None \<Rightarrow> Inr s
      | Some f \<Rightarrow>
          (let foodType = ftype f;
               s1 = updateCombo (now_eat clk) s;
               s2 = updateScore foodType s1;
               s3 = speedFoodEffect foodType s2;
               s4 = slowFoodEffect foodType s3;
               s5 = gradualSpeedIncrease foodType s4;
               s6 = s5\<lparr>poppedTail := None\<rparr>
           in (case spawnFood (rng s6) (snake s6) (grid_config s6) (score s6) (now_eat_spawn clk) of
                 Inl e \<Rightarrow> Inl e
               | Inr (fd, rng') \<Rightarrow> Inr (s6\<lparr>food := fd, rng := rng'\<rparr>))))"

definition gameOver :: "GameEngine \<Rightarrow> GameEngine" where
  "gameOver s = s\<lparr>phase := gameover\<rparr>"

text \<open>
  \<^verbatim>\<open>tick\<close>, in the steps its comments name. Up to the collision test the steps are
  \<open>checkComboExpiration\<close>, \<open>checkFoodExpiration\<close>, \<open>processDirectionBuffer\<close> and
  \<open>storePreviousPositions\<close>; \<open>tick\<close> composes them with the rest of the body.
\<close>

definition checkComboExpiration :: "real \<Rightarrow> GameEngine \<Rightarrow> GameEngine" where
  "checkComboExpiration now s =
     (if combo s > 0 \<and> now - lastEatTime s > comboWindow s then s\<lparr>combo := 0\<rparr> else s)"

definition checkFoodExpiration :: "tick_clock \<Rightarrow> GameEngine \<Rightarrow> error + GameEngine" where
  "checkFoodExpiration clk s =
     (case food s of
        None \<Rightarrow> Inr s
      | Some f \<Rightarrow>
          if \<not> isFoodValid f (now_tick clk)
          then (case spawnFood (rng s) (snake s) (grid_config s) (score s) (now_respawn clk) of
                  Inl e \<Rightarrow> Inl e
                | Inr (fd, rng') \<Rightarrow> Inr (s\<lparr>food := fd, rng := rng'\<rparr>))
          else Inr s)"

definition processDirectionBuffer :: "GameEngine \<Rightarrow> GameEngine" where
  "processDirectionBuffer s =
     (case directionBuffer s of
        [] \<Rightarrow> s
      | nextDir # rest \<Rightarrow>
          (let s1 = s\<lparr>directionBuffer := rest\<rparr>
           in if OPPOSITE_DIRECTION nextDir \<noteq> direction s1
              then s1\<lparr>direction := nextDir\<rparr> else s1))"

definition storePreviousPositions :: "GameEngine \<Rightarrow> GameEngine" where
  "storePreviousPositions s =
     s\<lparr>snake := map (\<lambda>seg. seg\<lparr>prevX := xpos seg, prevY := ypos seg\<rparr>) (snake s)\<rparr>"

text \<open>
  The new head of this tick. On an empty snake \<^verbatim>\<open>this.state.snake[0]\<close> is
  \<^verbatim>\<open>undefined\<close> and \<^verbatim>\<open>getNextHeadPosition\<close> throws on reading its \<^verbatim>\<open>x\<close>.
\<close>

definition newHeadPosition :: "GameEngine \<Rightarrow> error + Vector2" where
  "newHeadPosition s =
     (case snake s of
        [] \<Rightarrow> Inl TypeError
      | head # _ \<Rightarrow>
          (let dirVec = DIRECTION_VECTORS (direction s);
               newHead = getNextHeadPosition head dirVec
           in Inr (if mode s = zen
                   then wrapPosition newHead (gridWidth s) (gridHeight s) else newHead)))"

definition moveSnake :: "tick_clock \<Rightarrow> Vector2 \<Rightarrow> GameEngine \<Rightarrow> error + GameEngine" where
  "moveSnake clk newHead s =
     (case snake s of
        [] \<Rightarrow> Inl TypeError
      | head # _ \<Rightarrow>
          (let newSegment =
                 \<lparr>xpos = xpos newHead, ypos = ypos newHead, prevX = xpos head, prevY = ypos head\<rparr>;
               s1 = s\<lparr>snake := newSegment # snake s\<rparr>;
               eaten =
                 (case food s1 of
                    Some f \<Rightarrow>
                      if xpos newHead = xpos f \<and> ypos newHead = ypos f then eatFood clk s1
                      else Inr (s1\<lparr>poppedTail := Some (last (snake s1)),
                                    snake := butlast (snake s1)\<rparr>)
                  | None \<Rightarrow>
                      Inr (s1\<lparr>poppedTail := Some (last (snake s1)), snake := butlast (snake s1)\<rparr>))
           in (case eaten of
                 Inl e \<Rightarrow> Inl e
               | Inr s2 \<Rightarrow>
                   (let s3 = (if gracePeriodTicks s2 > 0
                              then s2\<lparr>gracePeriodTicks := gracePeriodTicks s2 - 1\<rparr> else s2)
                    in Inr (s3\<lparr>tickCount := tickCount s3 + 1\<rparr>)))))"

definition tick :: "tick_clock \<Rightarrow> real \<Rightarrow> GameEngine \<Rightarrow> error + GameEngine" where
  "tick clk deltaMs s =
     (if phase s \<noteq> playing then Inr s
      else
        (case checkFoodExpiration clk (checkComboExpiration (now_tick clk) s) of
           Inl e \<Rightarrow> Inl e
         | Inr s1 \<Rightarrow>
             (let s2 = storePreviousPositions (processDirectionBuffer s1)
              in (case newHeadPosition s2 of
                    Inl e \<Rightarrow> Inl e
                  | Inr newHead \<Rightarrow>
                      (let wallHit = checkWallCollision newHead (gridWidth s2) (gridHeight s2);
                           selfHit = checkSelfCollision newHead (snake s2) 1
                       in if wallHit \<or> selfHit
                          then (if gracePeriodTicks s2 > 0 \<or> (mode s2 = zen \<and> selfHit)
                                then Inr (s2\<lparr>gracePeriodTicks := gracePeriodTicks s2 - 1\<rparr>)
                                else Inr (gameOver s2))
                          else moveSnake clk newHead s2)))))"

text \<open>The public operations as calls, and a session as a list of calls run in order.\<close>

datatype call =
    StartGame GameMode start_env
  | GoToMenu
  | Pause
  | Resume
  | TogglePause
  | SetDirection Direction
  | Tick tick_clock real
  | SetGridSize int int

fun perform :: "call \<Rightarrow> GameEngine \<Rightarrow> error + GameEngine" where
  "perform (StartGame m env) s = startGame m env s"
| "perform GoToMenu s = Inr (goToMenu s)"
| "perform Pause s = Inr (pause s)"
| "perform Resume s = Inr (resume s)"
| "perform TogglePause s = Inr (togglePause s)"
| "perform (SetDirection dir) s = Inr (setDirection dir s)"
| "perform (Tick clk deltaMs) s = tick clk deltaMs s"
| "perform (SetGridSize width height) s = Inr (setGridSize width height s)"

fun run :: "call list \<Rightarrow> GameEngine \<Rightarrow> error + GameEngine" where
  "run [] s = Inr s"
| "run (c # cs) s = (case perform c s of Inl e \<Rightarrow> Inl e | Inr s' \<Rightarrow> run cs s')"

section \<open>Notions used to state the properties\<close>

text \<open>The decimal digits, for the injectivity of \<open>coordKey\<close>.\<close>

definition is_digit :: "char \<Rightarrow> bool" where
  "is_digit c \<longleftrightarrow> 48 \<le> (of_char c :: nat) \<and> (of_char c :: nat) \<le> 57"

text \<open>
  Two enumerations of the unoccupied cells of the grid. \<open>columnMajorEmpty\<close> lists
  column \<open>x = 0\<close> by increasing \<open>y\<close>, then column \<open>x = 1\<close>, and so on.
  \<open>rowMajorEmpty\<close> follows the words of the specification: row \<open>y = 0\<close> by increasing
  \<open>x\<close>, then row \<open>y = 1\<close>, and so on.
\<close>

definition columnMajorEmpty :: "int \<Rightarrow> int \<Rightarrow> 'a Vector2_scheme list \<Rightarrow> Vector2 list" where
  "columnMajorEmpty w h occupied =
     concat (map (\<lambda>i. map (\<lambda>j. \<lparr>xpos = i, ypos = j\<rparr>)
                          (filter (\<lambda>j. \<not> isOnSnake \<lparr>xpos = i, ypos = j\<rparr> occupied) [0..h - 1]))
                 [0..w - 1])"

definition rowMajorEmpty :: "int \<Rightarrow> int \<Rightarrow> 'a Vector2_scheme list \<Rightarrow> Vector2 list" where
  "rowMajorEmpty w h occupied =
     concat (map (\<lambda>j. map (\<lambda>i. \<lparr>xpos = i, ypos = j\<rparr>)
                          (filter (\<lambda>i. \<not> isOnSnake \<lparr>xpos = i, ypos = j\<rparr> occupied) [0..w - 1]))
                 [0..h - 1])"

text \<open>
  The distinct cells of the \<open>w \<times> h\<close> grid that a snake occupies; their number is the
  \<open>k\<close> of the spawn-exclusivity property.
\<close>

definition occupiedCells :: "int \<Rightarrow> int \<Rightarrow> 'a Vector2_scheme list \<Rightarrow> (int \<times> int) list" where
  "occupiedCells w h segs =
     remdups (filter (\<lambda>(i, j). 0 \<le> i \<and> i < w \<and> 0 \<le> j \<and> j < h)
                     (map (\<lambda>seg. (xpos seg, ypos seg)) segs))"

text \<open>The generator after \<open>n\<close> calls of \<^verbatim>\<open>next\<close>.\<close>

fun draws :: "nat \<Rightarrow> SeededRNG \<Rightarrow> SeededRNG" where
  "draws 0 r = r"
| "draws (Suc n) r = draws n (snd (SeededRNG_next r))"

text \<open>
  The cumulative probability bands in the order special, speed, slow, with the remainder
  normal; \<open>foodTypeFor\<close> adds the score threshold of \<^verbatim>\<open>spawnFood\<close>.
\<close>

definition typeBands :: "SpawnConfig \<Rightarrow> real \<Rightarrow> FoodType" where
  "typeBands cfg roll =
     (if roll < cfg_specialChance cfg then special
      else if roll < cfg_specialChance cfg + cfg_speedChance cfg then speed
      else if roll < cfg_specialChance cfg + cfg_speedChance cfg + cfg_slowChance cfg then slow
      else normal)"

definition foodTypeFor :: "SpawnConfig \<Rightarrow> int \<Rightarrow> real \<Rightarrow> FoodType" where
  "foodTypeFor cfg currentScore roll = (if currentScore > 30 then typeBands cfg roll else normal)"

text \<open>Example data: the start snake of a \<open>3 \<times> 3\<close> grid, and a snake that fills a \<open>1 \<times> 1\<close> grid.\<close>

definition example_snake :: "SnakeSegment list" where
  "example_snake =
     [\<lparr>xpos = 1, ypos = 1, prevX = 1, prevY = 1\<rparr>,
      \<lparr>xpos = 0, ypos = 1, prevX = 0, prevY = 1\<rparr>,
      \<lparr>xpos = -1, ypos = 1, prevX = -1, prevY = 1\<rparr>]"

definition example_config :: PartialSpawnConfig where
  "example_config =
     \<lparr>opt_gridWidth = Some 3, opt_gridHeight = Some 3, opt_specialChance = None,
      opt_speedChance = None, opt_slowChance = None, opt_specialDuration = None\<rparr>"

definition unit_snake :: "SnakeSegment list" where
  "unit_snake = [\<lparr>xpos = 0, ypos = 0, prevX = 0, prevY = 0\<rparr>]"

definition unit_config :: PartialSpawnConfig where
  "unit_config =
     \<lparr>opt_gridWidth = Some 1, opt_gridHeight = Some 1, opt_specialChance = None,
      opt_speedChance = None, opt_slowChance = None, opt_specialDuration = None\<rparr>"

text \<open>
  Generator instances as objects in a heap: \<^verbatim>\<open>new SeededRNG(s)\<close> stores a fresh instance
  under a reference, and a schedule is the order in which \<^verbatim>\<open>next()\<close> is called on the
  references. \<open>call_nexts\<close> returns the values in call order, each with the reference it
  came from, and the final heap. \<open>next_seq n r\<close> is the sequence of the first \<open>n\<close> values
  of a single generator \<open>r\<close>.
\<close>

type_synonym ref = nat
type_synonym rng_heap = "ref \<Rightarrow> SeededRNG option"

definition heap_new :: "ref \<Rightarrow> seed_arg \<Rightarrow> rng_heap \<Rightarrow> rng_heap" where
  "heap_new a s h = h(a \<mapsto> SeededRNG_new s)"

fun call_nexts :: "ref list \<Rightarrow> rng_heap \<Rightarrow> (ref \<times> real) list \<times> rng_heap" where
  "call_nexts [] h = ([], h)"
| "call_nexts (a # as) h =
     (case h a of
        None \<Rightarrow> call_nexts as h
      | Some r \<Rightarrow>
          (case SeededRNG_next r of (v, r') \<Rightarrow>
             (case call_nexts as (h(a \<mapsto> r')) of (out, h') \<Rightarrow> ((a, v) # out, h'))))"

definition outputs_of :: "ref \<Rightarrow> (ref \<times> real) list \<Rightarrow> real list" where
  "outputs_of a out = map snd (filter (\<lambda>p. fst p = a) out)"

fun next_seq :: "nat \<Rightarrow> SeededRNG \<Rightarrow> real list" where
  "next_seq 0 r = []"
| "next_seq (Suc n) r = fst (SeededRNG_next r) # next_seq n (snd (SeededRNG_next r))"

definition daily_heap :: rng_heap where
  "daily_heap = heap_new 1 (StrSeed ''daily-20240115'')
                  (heap_new 0 (StrSeed ''daily-20240115'') Map.empty)"

text \<open>
  Notions for the engine. \<open>positions\<close> are the cells of a snake without the interpolation
  fields. \<open>rateOK\<close> is the tick-rate bound. \<open>appliedDirection\<close> is the direction after the
  oldest buffered input has been taken. \<open>tickPrefix\<close> is the part of \<^verbatim>\<open>tick\<close> before the new
  head is computed, and \<open>tickCollision\<close> says that the tick in this state computes a new head
  that hits a wall or the body (the test \<^verbatim>\<open>wallHit || selfHit\<close>).
\<close>

definition positions :: "'a Vector2_scheme list \<Rightarrow> (int \<times> int) list" where
  "positions segs = map (\<lambda>seg. (xpos seg, ypos seg)) segs"

definition rateOK :: "GameEngine \<Rightarrow> bool" where
  "rateOK s \<longleftrightarrow> MIN_TICK_RATE \<le> tickRate s \<and> tickRate s \<le> baseTickRate s"

definition appliedDirection :: "GameEngine \<Rightarrow> Direction" where
  "appliedDirection s =
     (case directionBuffer s of
        [] \<Rightarrow> direction s
      | d # _ \<Rightarrow> if OPPOSITE_DIRECTION d \<noteq> direction s then d else direction s)"

definition tickPrefix :: "tick_clock \<Rightarrow> GameEngine \<Rightarrow> error + GameEngine" where
  "tickPrefix clk s =
     (case checkFoodExpiration clk (checkComboExpiration (now_tick clk) s) of
        Inl e \<Rightarrow> Inl e
      | Inr s1 \<Rightarrow> Inr (storePreviousPositions (processDirectionBuffer s1)))"

definition tickCollision :: "tick_clock \<Rightarrow> GameEngine \<Rightarrow> bool" where
  "tickCollision clk s \<longleftrightarrow>
     phase s = playing \<and>
     (case tickPrefix clk s of
        Inl e \<Rightarrow> False
      | Inr s2 \<Rightarrow>
          (case newHeadPosition s2 of
             Inl e \<Rightarrow> False
           | Inr newHead \<Rightarrow>
               checkWallCollision newHead (gridWidth s2) (gridHeight s2)
               \<or> checkSelfCollision newHead (snake s2) 1))"

text \<open>
  \<open>refDirection\<close> is the reference direction of \<^verbatim>\<open>setDirection\<close>: the most recently
  buffered direction, or the current one when the buffer is empty. \<open>isTick\<close> picks the
  calls of \<^verbatim>\<open>tick\<close> out of a session. \<open>engineInv\<close> collects what holds in every state a
  session can reach.
\<close>

definition refDirection :: "GameEngine \<Rightarrow> Direction" where
  "refDirection s = (if directionBuffer s \<noteq> [] then last (directionBuffer s) else direction s)"

fun isTick :: "call \<Rightarrow> bool" where
  "isTick (Tick clk deltaMs) = True"
| "isTick c = False"

definition engineInv :: "GameEngine \<Rightarrow> bool" where
  "engineInv s \<longleftrightarrow>
     (phase s = playing \<or> phase s = paused \<longrightarrow> snake s \<noteq> [])
     \<and> rateOK s \<and> length (directionBuffer s) \<le> 2
     \<and> baseTickRate s = BASE_TICK_RATES (mode s)"

text \<open>
  Example data for the engine: an environment, a clock, and the states of a few sessions on
  a \<open>4 \<times> 4\<close> grid and, for zen mode, on a \<open>3 \<times> 3\<close> grid. \<open>started m\<close> and
  \<open>zen_started\<close> are states after \<open>startGame\<close>; the others are the states after the
  ticks and inputs named in the lemmas that use them.
\<close>

definition env0 :: start_env where
  "env0 = \<lparr>date_now = 12345, today = \<lparr>getFullYear = 2024, getMonth = 0, getDate = 15\<rparr>,
           stored_highScore = 0, spawn_now = 0\<rparr>"

definition clk0 :: tick_clock where
  "clk0 = \<lparr>now_tick = 100, now_respawn = 100, now_eat = 100, now_eat_spawn = 100\<rparr>"

definition start_snake :: "SnakeSegment list" where
  "start_snake =
     [\<lparr>xpos = 2, ypos = 2, prevX = 2, prevY = 2\<rparr>,
      \<lparr>xpos = 1, ypos = 2, prevX = 1, prevY = 2\<rparr>,
      \<lparr>xpos = 0, ypos = 2, prevX = 0, prevY = 2\<rparr>]"

definition started :: "GameMode \<Rightarrow> GameEngine" where
  "started m =
     \<lparr>phase = playing, mode = m, score = 0, highScore = 0, combo = 0, lastEatTime = 0,
      comboWindow = 2500, snake = start_snake, direction = RIGHT, nextDirection = None,
      directionBuffer = [],
      food = Some \<lparr>xpos = 3, ypos = 3, ftype = normal, spawnTime = 0, expiresAt = None\<rparr>,
      gridWidth = 4, gridHeight = 4, tickRate = BASE_TICK_RATES m,
      baseTickRate = BASE_TICK_RATES m, tickCount = 0, gracePeriodTicks = 3,
      dailySeed = ''daily-20240115'', rng = \<lparr>seed = 3663143971\<rparr>, poppedTail = None\<rparr>"

definition after_tick1 :: GameEngine where
  "after_tick1 =
     (started classic)
       \<lparr>snake := [\<lparr>xpos = 3, ypos = 2, prevX = 2, prevY = 2\<rparr>,
                  \<lparr>xpos = 2, ypos = 2, prevX = 2, prevY = 2\<rparr>,
                  \<lparr>xpos = 1, ypos = 2, prevX = 1, prevY = 2\<rparr>],
        poppedTail := Some \<lparr>xpos = 0, ypos = 2, prevX = 0, prevY = 2\<rparr>,
        gracePeriodTicks := 2, tickCount := 1\<rparr>"

definition after_tick2 :: GameEngine where
  "after_tick2 =
     after_tick1
       \<lparr>snake := [\<lparr>xpos = 3, ypos = 2, prevX = 3, prevY = 2\<rparr>,
                  \<lparr>xpos = 2, ypos = 2, prevX = 2, prevY = 2\<rparr>,
                  \<lparr>xpos = 1, ypos = 2, prevX = 1, prevY = 2\<rparr>],
        gracePeriodTicks := 1\<rparr>"

definition zen_started :: GameEngine where
  "zen_started =
     \<lparr>phase = playing, mode = zen, score = 0, highScore = 0, combo = 0, lastEatTime = 0,
      comboWindow = 2500, snake = example_snake, direction = RIGHT, nextDirection = None,
      directionBuffer = [],
      food = Some \<lparr>xpos = 2, ypos = 2, ftype = normal, spawnTime = 0, expiresAt = None\<rparr>,
      gridWidth = 3, gridHeight = 3, tickRate = 150, baseTickRate = 150, tickCount = 0,
      gracePeriodTicks = 3, dailySeed = ''daily-20240115'', rng = \<lparr>seed = 3663143971\<rparr>,
      poppedTail = None\<rparr>"

definition zen_moved :: GameEngine where
  "zen_moved =
     zen_started
       \<lparr>snake := [\<lparr>xpos = 2, ypos = 1, prevX = 1, prevY = 1\<rparr>,
                  \<lparr>xpos = 1, ypos = 1, prevX = 1, prevY = 1\<rparr>,
                  \<lparr>xpos = 0, ypos = 1, prevX = 0, prevY = 1\<rparr>],
        poppedTail := Some \<lparr>xpos = -1, ypos = 1, prevX = -1, prevY = 1\<rparr>,
        gracePeriodTicks := 2, tickCount := 1\<rparr>"

definition zen_blocked :: "int \<Rightarrow> GameEngine" where
  "zen_blocked g =
     zen_moved
       \<lparr>snake := [\<lparr>xpos = 2, ypos = 1, prevX = 2, prevY = 1\<rparr>,
                  \<lparr>xpos = 1, ypos = 1, prevX = 1, prevY = 1\<rparr>,
                  \<lparr>xpos = 0, ypos = 1, prevX = 0, prevY = 1\<rparr>],
        gracePeriodTicks := g\<rparr>"

definition full_buffer :: GameEngine where
  "full_buffer = (started classic)\<lparr>directionBuffer := [UP, LEFT]\<rparr>"

definition full_buffer_tick :: GameEngine where
  "full_buffer_tick =
     full_buffer
       \<lparr>directionBuffer := [LEFT], direction := UP,
        snake := [\<lparr>xpos = 2, ypos = 1, prevX = 2, prevY = 2\<rparr>,
                  \<lparr>xpos = 2, ypos = 2, prevX = 2, prevY = 2\<rparr>,
                  \<lparr>xpos = 1, ypos = 2, prevX = 1, prevY = 2\<rparr>],
        poppedTail := Some \<lparr>xpos = 0, ypos = 2, prevX = 0, prevY = 2\<rparr>,
        gracePeriodTicks := 2, tickCount := 1\<rparr>"

text \<open>
  \<open>eatSteps\<close> is the body of \<^verbatim>\<open>eatFood\<close> up to the respawn: the combo, the score, the
  speed food, the slow food and the gradual speed increase, in the order of the source.
\<close>

definition eatSteps :: "tick_clock \<Rightarrow> FoodType \<Rightarrow> GameEngine \<Rightarrow> GameEngine" where
  "eatSteps clk ft s =
     (gradualSpeedIncrease ft (slowFoodEffect ft (speedFoodEffect ft
        (updateScore ft (updateCombo (now_eat clk) s)))))\<lparr>poppedTail := None\<rparr>"

text \<open>
  A zen session on an \<open>8 \<times> 1\<close> grid in which every tick eats: the generator seeded with
  \<open>1700000005690\<close> puts each food on the cell in front of the head. The foods are three
  normal ones, a slow one and a speed one; \<open>ring_start\<close> is the state after \<open>startGame\<close> and
  \<open>ring_eat1\<close> to \<open>ring_eat5\<close> are the states after the five ticks. \<open>clk_at t\<close> is a clock
  that reads \<open>t\<close> at every call of \<^verbatim>\<open>performance.now()\<close> within one tick.
\<close>

definition env1 :: start_env where
  "env1 = \<lparr>date_now = 1700000005690,
           today = \<lparr>getFullYear = 2023, getMonth = 10, getDate = 14\<rparr>,
           stored_highScore = 0, spawn_now = 0\<rparr>"

definition clk_at :: "real \<Rightarrow> tick_clock" where
  "clk_at t = \<lparr>now_tick = t, now_respawn = t, now_eat = t, now_eat_spawn = t\<rparr>"

definition ring_config :: PartialSpawnConfig where
  "ring_config =
     \<lparr>opt_gridWidth = Some 8, opt_gridHeight = Some 1, opt_specialChance = None,
      opt_speedChance = None, opt_slowChance = None, opt_specialDuration = None\<rparr>"

definition ring_snake0 :: "SnakeSegment list" where
  "ring_snake0 =
     [\<lparr>xpos = 4, ypos = 0, prevX = 4, prevY = 0\<rparr>,
      \<lparr>xpos = 3, ypos = 0, prevX = 3, prevY = 0\<rparr>,
      \<lparr>xpos = 2, ypos = 0, prevX = 2, prevY = 0\<rparr>]"

definition ring_snake1 :: "SnakeSegment list" where
  "ring_snake1 =
     [\<lparr>xpos = 5, ypos = 0, prevX = 4, prevY = 0\<rparr>,
      \<lparr>xpos = 4, ypos = 0, prevX = 4, prevY = 0\<rparr>,
      \<lparr>xpos = 3, ypos = 0, prevX = 3, prevY = 0\<rparr>,
      \<lparr>xpos = 2, ypos = 0, prevX = 2, prevY = 0\<rparr>]"

definition ring_snake2 :: "SnakeSegment list" where
  "ring_snake2 =
     [\<lparr>xpos = 6, ypos = 0, prevX = 5, prevY = 0\<rparr>,
      \<lparr>xpos = 5, ypos = 0, prevX = 5, prevY = 0\<rparr>,
      \<lparr>xpos = 4, ypos = 0, prevX = 4, prevY = 0\<rparr>,
      \<lparr>xpos = 3, ypos = 0, prevX = 3, prevY = 0\<rparr>,
      \<lparr>xpos = 2, ypos = 0, prevX = 2, prevY = 0\<rparr>]"

definition ring_snake3 :: "SnakeSegment list" where
  "ring_snake3 =
     [\<lparr>xpos = 7, ypos = 0, prevX = 6, prevY = 0\<rparr>,
      \<lparr>xpos = 6, ypos = 0, prevX = 6, prevY = 0\<rparr>,
      \<lparr>xpos = 5, ypos = 0, prevX = 5, prevY = 0\<rparr>,
      \<lparr>xpos = 4, ypos = 0, prevX = 4, prevY = 0\<rparr>,
      \<lparr>xpos = 3, ypos = 0, prevX = 3, prevY = 0\<rparr>,
      \<lparr>xpos = 2, ypos = 0, prevX = 2, prevY = 0\<rparr>]"

definition ring_snake4 :: "SnakeSegment list" where
  "ring_snake4 =
     [\<lparr>xpos = 0, ypos = 0, prevX = 7, prevY = 0\<rparr>,
      \<lparr>xpos = 7, ypos = 0, prevX = 7, prevY = 0\<rparr>,
      \<lparr>xpos = 6, ypos = 0, prevX = 6, prevY = 0\<rparr>,
      \<lparr>xpos = 5, ypos = 0, prevX = 5, prevY = 0\<rparr>,
      \<lparr>xpos = 4, ypos = 0, prevX = 4, prevY = 0\<rparr>,
      \<lparr>xpos = 3, ypos = 0, prevX = 3, prevY = 0\<rparr>,
      \<lparr>xpos = 2, ypos = 0, prevX = 2, prevY = 0\<rparr>]"

definition ring_snake5 :: "SnakeSegment list" where
  "ring_snake5 =
     [\<lparr>xpos = 1, ypos = 0, prevX = 0, prevY = 0\<rparr>,
      \<lparr>xpos = 0, ypos = 0, prevX = 0, prevY = 0\<rparr>,
      \<lparr>xpos = 7, ypos = 0, prevX = 7, prevY = 0\<rparr>,
      \<lparr>xpos = 6, ypos = 0, prevX = 6, prevY = 0\<rparr>,
      \<lparr>xpos = 5, ypos = 0, prevX = 5, prevY = 0\<rparr>,
      \<lparr>xpos = 4, ypos = 0, prevX = 4, prevY = 0\<rparr>,
      \<lparr>xpos = 3, ypos = 0, prevX = 3, prevY = 0\<rparr>,
      \<lparr>xpos = 2, ypos = 0, prevX = 2, prevY = 0\<rparr>]"

definition ring_start :: GameEngine where
  "ring_start =
     \<lparr>phase = playing, mode = zen, score = 0, highScore = 0, combo = 0, lastEatTime = 0,
      comboWindow = 2500, snake = ring_snake0, direction = RIGHT, nextDirection = None,
      directionBuffer = [],
      food = Some \<lparr>xpos = 5, ypos = 0, ftype = normal, spawnTime = 0, expiresAt = None\<rparr>,
      gridWidth = 8, gridHeight = 1, tickRate = 150, baseTickRate = 150, tickCount = 0,
      gracePeriodTicks = 3, dailySeed = ''daily-20231114'',
      rng = \<lparr>seed = 1703663137316\<rparr>, poppedTail = None\<rparr>"

definition ring_eat1 :: GameEngine where
  "ring_eat1 =
     ring_start
       \<lparr>score := 15, highScore := 15, combo := 1, lastEatTime := 150, snake := ring_snake1,
        food := Some \<lparr>xpos = 6, ypos = 0, ftype = normal, spawnTime = 150,
                      expiresAt = None\<rparr>,
        tickRate := 150, tickCount := 1, gracePeriodTicks := 2,
        rng := \<lparr>seed = 1707326268942\<rparr>\<rparr>"

definition ring_eat2 :: GameEngine where
  "ring_eat2 =
     ring_eat1
       \<lparr>score := 35, highScore := 35, combo := 2, lastEatTime := 300, snake := ring_snake2,
        food := Some \<lparr>xpos = 7, ypos = 0, ftype = normal, spawnTime = 300,
                      expiresAt = None\<rparr>,
        tickRate := 150, tickCount := 2, gracePeriodTicks := 1,
        rng := \<lparr>seed = 1710989400568\<rparr>\<rparr>"

definition ring_eat3 :: GameEngine where
  "ring_eat3 =
     ring_eat2
       \<lparr>score := 60, highScore := 60, combo := 3, lastEatTime := 450, snake := ring_snake3,
        food := Some \<lparr>xpos = 0, ypos = 0, ftype = slow, spawnTime = 450,
                      expiresAt = Some 8450\<rparr>,
        tickRate := 148, tickCount := 3, gracePeriodTicks := 0,
        rng := \<lparr>seed = 1714652532194\<rparr>\<rparr>"

definition ring_eat4 :: GameEngine where
  "ring_eat4 =
     ring_eat3
       \<lparr>score := 100, highScore := 100, combo := 4, lastEatTime := 600, snake := ring_snake4,
        food := Some \<lparr>xpos = 1, ypos = 0, ftype = speed, spawnTime = 600,
                      expiresAt = Some 8600\<rparr>,
        tickRate := 150, tickCount := 4, gracePeriodTicks := 0,
        rng := \<lparr>seed = 1718315663820\<rparr>\<rparr>"

definition ring_eat5 :: GameEngine where
  "ring_eat5 =
     ring_eat4
       \<lparr>score := 155, highScore := 155, combo := 5, lastEatTime := 750, snake := ring_snake5,
        food := None,
        tickRate := 130, tickCount := 5, gracePeriodTicks := 0,
        rng := \<lparr>seed = 1718315663820\<rparr>\<rparr>"

section \<open>Properties of the collision module\<close>

lemma smod_nonneg:
  fixes b w :: int
  assumes "0 \<le> b"
  shows "b smod w = b mod \<bar>w\<bar>"
proof (cases "b = 0")
  case True
  then show ?thesis by (simp add: smod_int_alt_def)
next
  case False
  with assms have "0 < b" by simp
  then show ?thesis by (simp add: smod_int_alt_def)
qed

lemma js_floored_mod:
  fixes a w :: int
  assumes "0 < w"
  shows "((a smod w) + w) smod w = a mod w"
proof (cases "0 \<le> a")
  case True
  then have "a smod w = a mod w"
    using assms by (simp add: smod_nonneg)
  moreover have "0 \<le> a mod w + w" using assms
    by (simp add: add_nonneg_nonneg)
  ultimately show ?thesis using assms
    by (simp add: smod_nonneg)
next
  case False
  then have neg: "a < 0" by simp
  have r: "a smod w = - ((- a) mod w)"
    using neg assms by (simp add: smod_int_alt_def)
  have lt: "(- a) mod w < w" using assms by simp
  have pos: "0 \<le> - ((- a) mod w) + w" using lt by simp
  have "(- ((- a) mod w) + w) smod w = (- ((- a) mod w) + w) mod w"
    using smod_nonneg [OF pos, of w] assms by simp
  also have "\<dots> = (- ((- a) mod w)) mod w" by simp
  also have "\<dots> = a mod w"
    by (metis mod_minus_eq minus_minus)
  finally show ?thesis using r by simp
qed

lemma wrapPosition_mod:
  "0 < w \<Longrightarrow> 0 < h \<Longrightarrow>
   wrapPosition pos w h = \<lparr>xpos = xpos pos mod w, ypos = ypos pos mod h\<rparr>"
  by (simp add: wrapPosition_def js_floored_mod)

text \<open>
  Claim C8. For positive grid sizes \<open>w\<close> and \<open>h\<close>, \<open>wrapPosition\<close> is the floored
  modulo of each coordinate (HOL's \<open>mod\<close> on \<^typ>\<open>int\<close>), so a negative coordinate
  wraps to the opposite edge and the result lies in \<open>[0, w) \<times> [0, h)\<close>; the two
  instances of the wrap law are \<open>(-1, 5) \<mapsto> (19, 5)\<close> and \<open>(20, 5) \<mapsto> (0, 5)\<close> on the
  \<open>20 \<times> 15\<close> grid.
\<close>

theorem wrapPosition_floored_modulo:
  assumes "0 < w" and "0 < h"
  shows "wrapPosition pos w h = \<lparr>xpos = xpos pos mod w, ypos = ypos pos mod h\<rparr>
       \<and> 0 \<le> xpos (wrapPosition pos w h) \<and> xpos (wrapPosition pos w h) < w
       \<and> 0 \<le> ypos (wrapPosition pos w h) \<and> ypos (wrapPosition pos w h) < h
       \<and> wrapPosition \<lparr>xpos = -1, ypos = 5\<rparr> 20 15 = \<lparr>xpos = 19, ypos = 5\<rparr>
       \<and> wrapPosition \<lparr>xpos = 20, ypos = 5\<rparr> 20 15 = \<lparr>xpos = 0, ypos = 5\<rparr>"
  using assms by (simp add: wrapPosition_mod)

theorem wrapPosition_floored_modulo_witness:
  "(0::int) < 20 \<and> (0::int) < 15
   \<and> wrapPosition \<lparr>xpos = -7, ypos = 31\<rparr> 20 15 = \<lparr>xpos = 13, ypos = 1\<rparr>"
  using wrapPosition_floored_modulo [of 20 15 "\<lparr>xpos = -7, ypos = 31\<rparr>"]
  by simp

section \<open>Properties of the spawn system\<close>

lemma spawnFood_expiresAt:
  assumes "spawnFood r segs config sc now = Inr (Some f, r')"
      and "opt_specialDuration config = None"
  shows "expiresAt f = (if ftype f \<noteq> normal then Some (now + 8000) else None)"
  using assms
  by (auto simp: spawnFood_def merge_config_def DEFAULT_CONFIG_def Let_def
           split: if_splits prod.splits option.splits)

text \<open>
  Claim C7, as amended. For every food value and time \<open>now\<close>, \<open>isFoodValid\<close> returns false
  if and only if the \<open>expiresAt\<close> field is set to a value other than \<open>0\<close> and
  \<open>now > expiresAt\<close>. The source tests \<^verbatim>\<open>food.expiresAt && ...\<close>, the presence test
  that the renderer applies to the field as well (\<^verbatim>\<open>if (food.expiresAt)\<close>), under which an
  expiry time of \<open>0\<close> counts as absent. By \<open>spawnFood_expiresAt\<close> the food that \<open>spawnFood\<close>
  makes with the default duration expires at \<open>now + 8000\<close> or never, so with a clock that
  is not negative it never carries the expiry time \<open>0\<close>.
\<close>

theorem isFoodValid_truthy_expiry:
  "isFoodValid f now = False \<longleftrightarrow> (\<exists>e. expiresAt f = Some e \<and> e \<noteq> 0 \<and> now > e)"
  by (cases "expiresAt f") (auto simp: isFoodValid_def)

text \<open>
  Claim C7, as stated (for every food value, false exactly when \<open>expiresAt\<close> is set and
  \<open>now > expiresAt\<close>), fails for the food value whose \<open>expiresAt\<close> is set to \<open>0\<close>: at time
  \<open>1\<close> the field is set and \<open>1 > 0\<close>, and \<open>isFoodValid\<close> returns true.
\<close>

theorem isFoodValid_zero_expiry:
  "expiresAt \<lparr>xpos = 5, ypos = 5, ftype = special, spawnTime = 0, expiresAt = Some 0\<rparr>
     = Some 0
   \<and> (1::real) > 0
   \<and> isFoodValid \<lparr>xpos = 5, ypos = 5, ftype = special, spawnTime = 0, expiresAt = Some 0\<rparr> 1
     = True"
  by (simp add: isFoodValid_def)

lemma of_char_digit_char: "d < 10 \<Longrightarrow> (of_char (digit_char d) :: nat) = 48 + d"
  by (simp add: digit_char_def)

lemma digit_char_inj: "d < 10 \<Longrightarrow> e < 10 \<Longrightarrow> digit_char d = digit_char e \<Longrightarrow> d = e"
  by (metis of_char_digit_char add_left_cancel)

lemma is_digit_digit_char: "d < 10 \<Longrightarrow> is_digit (digit_char d)"
  by (simp add: is_digit_def of_char_digit_char)

lemma nat_str_digits: "c \<in> set (nat_str n) \<Longrightarrow> is_digit c"
proof (induction n rule: nat_str.induct)
  case (1 n)
  show ?case
  proof (cases "n < 10")
    case True
    with "1.prems" show ?thesis
      by (simp add: nat_str.simps [of n] is_digit_digit_char)
  next
    case False
    with "1.prems" have "c \<in> set (nat_str (n div 10)) \<or> c = digit_char (n mod 10)"
      by (auto simp add: nat_str.simps [of n])
    with False "1.IH" show ?thesis
      by (auto simp: is_digit_digit_char)
  qed
qed

lemma nat_str_nonempty: "nat_str n \<noteq> []"
  by (subst nat_str.simps) simp

lemma nat_str_length_ge2: "\<not> n < 10 \<Longrightarrow> 2 \<le> length (nat_str n)"
proof -
  assume "\<not> n < 10"
  then have "nat_str n = nat_str (n div 10) @ [digit_char (n mod 10)]"
    by (subst nat_str.simps) simp
  moreover have "1 \<le> length (nat_str (n div 10))"
    using nat_str_nonempty [of "n div 10"] by (cases "nat_str (n div 10)") auto
  ultimately show ?thesis by simp
qed

lemma nat_str_inj: "nat_str n = nat_str m \<Longrightarrow> n = m"
proof (induction n arbitrary: m rule: nat_str.induct)
  case (1 n)
  show ?case
  proof (cases "n < 10")
    case n: True
    then have ln: "nat_str n = [digit_char n]" by (subst nat_str.simps) simp
    show ?thesis
    proof (cases "m < 10")
      case True
      then have "nat_str m = [digit_char m]" by (subst nat_str.simps) simp
      with ln "1.prems" n True show ?thesis by (simp add: digit_char_inj)
    next
      case False
      then have "2 \<le> length (nat_str m)" by (rule nat_str_length_ge2)
      with ln "1.prems" show ?thesis by simp
    qed
  next
    case n: False
    then have ln: "nat_str n = nat_str (n div 10) @ [digit_char (n mod 10)]"
      by (subst nat_str.simps) simp
    show ?thesis
    proof (cases "m < 10")
      case True
      then have "nat_str m = [digit_char m]" by (subst nat_str.simps) simp
      moreover have "2 \<le> length (nat_str n)" using n by (rule nat_str_length_ge2)
      ultimately show ?thesis using "1.prems" by simp
    next
      case False
      then have "nat_str m = nat_str (m div 10) @ [digit_char (m mod 10)]"
        by (subst nat_str.simps) simp
      with ln "1.prems" have a: "nat_str (n div 10) = nat_str (m div 10)"
        and b: "digit_char (n mod 10) = digit_char (m mod 10)" by simp_all
      from "1.IH" [OF n a] have "n div 10 = m div 10" .
      moreover from b have "n mod 10 = m mod 10" by (simp add: digit_char_inj)
      ultimately show ?thesis by (metis div_mult_mod_eq)
    qed
  qed
qed

lemma not_digit_minus: "\<not> is_digit CHR ''-''" by (simp add: is_digit_def)
lemma not_digit_comma: "\<not> is_digit CHR '',''" by (simp add: is_digit_def)

lemma num_str_inj: "num_str i = num_str j \<Longrightarrow> i = j"
proof -
  assume eq: "num_str i = num_str j"
  have hd_digit: "is_digit (hd (nat_str n))" for n
    using nat_str_digits [of "hd (nat_str n)" n] nat_str_nonempty [of n] by simp
  have neq: "CHR ''-'' # nat_str a \<noteq> nat_str b" for a b
  proof
    assume "CHR ''-'' # nat_str a = nat_str b"
    then have "hd (nat_str b) = CHR ''-''" by (metis list.sel(1))
    with hd_digit [of b] not_digit_minus show False by simp
  qed
  show ?thesis
  proof (cases "i < 0")
    case i: True
    show ?thesis
    proof (cases "j < 0")
      case True
      with i eq have "nat (- i) = nat (- j)" by (simp add: num_str_def nat_str_inj)
      with i True show ?thesis by simp
    next
      case False
      with i eq neq [of "nat (- i)" "nat j"] show ?thesis by (simp add: num_str_def)
    qed
  next
    case i: False
    show ?thesis
    proof (cases "j < 0")
      case True
      with i eq neq [of "nat (- j)" "nat i"] show ?thesis by (simp add: num_str_def)
    next
      case False
      with i eq have "nat i = nat j" by (simp add: num_str_def nat_str_inj)
      with i False show ?thesis by simp
    qed
  qed
qed

lemma num_str_no_comma: "CHR '','' \<notin> set (num_str i)"
  using nat_str_digits not_digit_comma by (auto simp: num_str_def)

lemma split_at_separator:
  assumes "c \<notin> set a" and "c \<notin> set a'" and "a @ c # b = a' @ c # b'"
  shows "a = a' \<and> b = b'"
proof -
  have "takeWhile (\<lambda>x. x \<noteq> c) (a @ c # b) = a"
    using assms(1) by (auto simp: takeWhile_tail)
  moreover have "takeWhile (\<lambda>x. x \<noteq> c) (a' @ c # b') = a'"
    using assms(2) by (auto simp: takeWhile_tail)
  ultimately have "a = a'" using assms(3) by simp
  with assms(3) show ?thesis by simp
qed

lemma coordKey_inj: "coordKey x y = coordKey x' y' \<longleftrightarrow> x = x' \<and> y = y'"
proof
  assume "coordKey x y = coordKey x' y'"
  then have "num_str x @ CHR '','' # num_str y = num_str x' @ CHR '','' # num_str y'"
    by (simp add: coordKey_def)
  from split_at_separator [OF num_str_no_comma num_str_no_comma this]
  show "x = x' \<and> y = y'" by (simp add: num_str_inj)
qed simp

lemma occupiedSet_loop_eq:
  "occupiedSet_loop S occupied = S \<union> (\<lambda>p. coordKey (xpos p) (ypos p)) ` set occupied"
  by (induction occupied arbitrary: S) auto

lemma key_in_occupiedSet:
  "coordKey i j \<in> occupiedSet_loop {} occupied \<longleftrightarrow> isOnSnake \<lparr>xpos = i, ypos = j\<rparr> occupied"
  by (auto simp: occupiedSet_loop_eq isOnSnake_def coordKey_inj)

lemma emptyCells_inner_eq:
  "emptyCells_inner occ h x y acc =
     acc @ map (\<lambda>j. \<lparr>xpos = x, ypos = j\<rparr>) (filter (\<lambda>j. coordKey x j \<notin> occ) [y..h - 1])"
proof (induction occ h x y acc rule: emptyCells_inner.induct)
  case (1 occ h x y acc)
  show ?case
  proof (cases "y < h")
    case True
    then have u: "[y..h - 1] = y # [y + 1..h - 1]" by (simp add: upto_rec1)
    show ?thesis
      using True "1.IH" by (subst emptyCells_inner.simps) (simp add: u)
  next
    case False
    then show ?thesis by (subst emptyCells_inner.simps) simp
  qed
qed

lemma emptyCells_outer_eq:
  "emptyCells_outer occ w h x acc =
     acc @ concat (map (\<lambda>i. map (\<lambda>j. \<lparr>xpos = i, ypos = j\<rparr>)
                                (filter (\<lambda>j. coordKey i j \<notin> occ) [0..h - 1]))
                       [x..w - 1])"
proof (induction occ w h x acc rule: emptyCells_outer.induct)
  case (1 occ w h x acc)
  show ?case
  proof (cases "x < w")
    case True
    then have u: "[x..w - 1] = x # [x + 1..w - 1]" by (simp add: upto_rec1)
    show ?thesis
      using True "1.IH" by (subst emptyCells_outer.simps) (simp add: u emptyCells_inner_eq)
  next
    case False
    then show ?thesis by (subst emptyCells_outer.simps) simp
  qed
qed

lemma getEmptyCells_eq:
  "getEmptyCells w h occupied = columnMajorEmpty w h occupied"
  by (simp add: getEmptyCells_def columnMajorEmpty_def emptyCells_outer_eq key_in_occupiedSet)

text \<open>
  Claim C6, as amended. For every width, height and occupied list, \<open>getEmptyCells\<close>
  returns the unoccupied cells of the grid in column-major order: all cells of column
  \<open>x = 0\<close> by increasing \<open>y\<close>, then column \<open>x = 1\<close>, and so on (the outer loop of the
  source runs over \<open>x\<close>, the inner one over \<open>y\<close>).
\<close>

theorem getEmptyCells_column_major:
  "getEmptyCells w h occupied = columnMajorEmpty w h occupied"
  by (rule getEmptyCells_eq)

text \<open>
  Claim C6, as stated (row-major order), fails on the empty \<open>2 \<times> 2\<close> grid: the source
  returns \<open>(0,0), (0,1), (1,0), (1,1)\<close>, row-major order is \<open>(0,0), (1,0), (0,1), (1,1)\<close>.
\<close>

theorem getEmptyCells_not_row_major:
  "getEmptyCells 2 2 ([] :: Vector2 list)
     = [\<lparr>xpos = 0, ypos = 0\<rparr>, \<lparr>xpos = 0, ypos = 1\<rparr>, \<lparr>xpos = 1, ypos = 0\<rparr>, \<lparr>xpos = 1, ypos = 1\<rparr>]
   \<and> rowMajorEmpty 2 2 ([] :: Vector2 list)
     = [\<lparr>xpos = 0, ypos = 0\<rparr>, \<lparr>xpos = 1, ypos = 0\<rparr>, \<lparr>xpos = 0, ypos = 1\<rparr>, \<lparr>xpos = 1, ypos = 1\<rparr>]
   \<and> getEmptyCells 2 2 ([] :: Vector2 list) \<noteq> rowMajorEmpty 2 2 ([] :: Vector2 list)"
  by code_simp

lemma set_getEmptyCells:
  "set (getEmptyCells w h occupied) =
     {c. 0 \<le> xpos c \<and> xpos c < w \<and> 0 \<le> ypos c \<and> ypos c < h \<and> \<not> isOnSnake c occupied}"
  (is "?L = ?R")
proof (rule set_eqI)
  fix c :: Vector2
  have c: "c = \<lparr>xpos = xpos c, ypos = ypos c\<rparr>" by simp
  have "c \<in> ?L \<longleftrightarrow>
        (\<exists>i j. 0 \<le> i \<and> i < w \<and> 0 \<le> j \<and> j < h
               \<and> \<not> isOnSnake \<lparr>xpos = i, ypos = j\<rparr> occupied \<and> c = \<lparr>xpos = i, ypos = j\<rparr>)"
    by (auto simp: getEmptyCells_eq columnMajorEmpty_def)
  also have "\<dots> \<longleftrightarrow> c \<in> ?R"
  proof
    assume "\<exists>i j. 0 \<le> i \<and> i < w \<and> 0 \<le> j \<and> j < h
               \<and> \<not> isOnSnake \<lparr>xpos = i, ypos = j\<rparr> occupied \<and> c = \<lparr>xpos = i, ypos = j\<rparr>"
    then show "c \<in> ?R" by (auto simp: isOnSnake_def)
  next
    assume "c \<in> ?R"
    then have "0 \<le> xpos c \<and> xpos c < w \<and> 0 \<le> ypos c \<and> ypos c < h
               \<and> \<not> isOnSnake \<lparr>xpos = xpos c, ypos = ypos c\<rparr> occupied" by (simp add: isOnSnake_def)
    with c show "\<exists>i j. 0 \<le> i \<and> i < w \<and> 0 \<le> j \<and> j < h
               \<and> \<not> isOnSnake \<lparr>xpos = i, ypos = j\<rparr> occupied \<and> c = \<lparr>xpos = i, ypos = j\<rparr>"
      by blast
  qed
  finally show "c \<in> ?L \<longleftrightarrow> c \<in> ?R" .
qed

lemma unat_u32_bound: "unat (u :: int32) < 4294967296"
  using unsigned_less [of u, where 'a = nat] by simp

lemma SeededRNG_next_range:
  "0 \<le> fst (SeededRNG_next r) \<and> fst (SeededRNG_next r) < 1"
proof -
  obtain u r' where n: "next_u32 r = (u, r')" by (cases "next_u32 r")
  have "real (unat u) < 4294967296" using unat_u32_bound [of u] by linarith
  moreover have "0 \<le> real (unat u)" by (rule of_nat_0_le_iff)
  ultimately show ?thesis by (simp add: SeededRNG_next_def n)
qed

lemma SeededRNG_pick_rng: "snd (SeededRNG_pick r array) = snd (SeededRNG_next r)"
  by (simp add: SeededRNG_pick_def Let_def split: prod.splits)

lemma SeededRNG_pick_nonempty:
  assumes "array \<noteq> []"
  shows "\<exists>a \<in> set array. fst (SeededRNG_pick r array) = Some a"
proof -
  obtain v r' where n: "SeededRNG_next r = (v, r')" by (cases "SeededRNG_next r")
  have v: "0 \<le> v" "v < 1" using SeededRNG_next_range [of r] by (simp_all add: n)
  let ?n = "length array"
  have pos: "0 < real ?n" using assms by simp
  have "v * real ?n < real ?n" using v pos by simp
  then have "\<lfloor>v * real ?n\<rfloor> < int ?n" by (simp add: floor_less_iff)
  moreover have "0 \<le> \<lfloor>v * real ?n\<rfloor>" using v by simp
  ultimately have i: "nat \<lfloor>v * real ?n\<rfloor> < ?n" by linarith
  then have "fst (SeededRNG_pick r array) = Some (array ! nat \<lfloor>v * real ?n\<rfloor>)"
    by (simp add: SeededRNG_pick_def n Let_def)
  with i show ?thesis by (metis nth_mem)
qed

lemma spawnFood_full:
  assumes "getEmptyCells (cfg_gridWidth (merge_config config)) (cfg_gridHeight (merge_config config)) segs = []"
  shows "spawnFood r0 segs config currentScore now = Inr (None, r0)"
  using assms by (simp add: spawnFood_def)

lemma spawnFood_nonfull:
  assumes "getEmptyCells (cfg_gridWidth (merge_config config)) (cfg_gridHeight (merge_config config)) segs \<noteq> []"
  shows "\<exists>pos \<in> set (getEmptyCells (cfg_gridWidth (merge_config config))
                        (cfg_gridHeight (merge_config config)) segs).
           spawnFood r0 segs config currentScore now =
             Inr (Some \<lparr>xpos = xpos pos, ypos = ypos pos,
                        ftype = foodTypeFor (merge_config config) currentScore
                                  (fst (SeededRNG_next (snd (SeededRNG_next r0)))),
                        spawnTime = now,
                        expiresAt =
                          (if foodTypeFor (merge_config config) currentScore
                                (fst (SeededRNG_next (snd (SeededRNG_next r0)))) \<noteq> normal
                           then Some (now + cfg_specialDuration (merge_config config)) else None)\<rparr>,
                  draws 2 r0)"
proof -
  let ?cells = "getEmptyCells (cfg_gridWidth (merge_config config))
                  (cfg_gridHeight (merge_config config)) segs"
  obtain a where a: "a \<in> set ?cells" "fst (SeededRNG_pick r0 ?cells) = Some a"
    using SeededRNG_pick_nonempty [OF assms, of r0] by blast
  obtain pk r1 where p: "SeededRNG_pick r0 ?cells = (pk, r1)" by (cases "SeededRNG_pick r0 ?cells")
  have pk: "pk = Some a" using a p by simp
  have r1: "r1 = snd (SeededRNG_next r0)" using SeededRNG_pick_rng [of r0 ?cells] p by simp
  obtain roll r2 where n: "SeededRNG_next r1 = (roll, r2)" by (cases "SeededRNG_next r1")
  have d: "draws 2 r0 = r2" using n r1 by (simp add: numeral_2_eq_2)
  have roll: "fst (SeededRNG_next (snd (SeededRNG_next r0))) = roll" using n r1 by simp
  have "spawnFood r0 segs config currentScore now =
          Inr (Some \<lparr>xpos = xpos a, ypos = ypos a,
                     ftype = foodTypeFor (merge_config config) currentScore roll,
                     spawnTime = now,
                     expiresAt = (if foodTypeFor (merge_config config) currentScore roll \<noteq> normal
                                  then Some (now + cfg_specialDuration (merge_config config)) else None)\<rparr>,
               r2)"
    using assms by (simp add: spawnFood_def Let_def p pk n foodTypeFor_def typeBands_def)
  with a(1) d roll show ?thesis by auto
qed

lemma set_occupiedCells:
  "set (occupiedCells w h segs) =
     {(i, j). 0 \<le> i \<and> i < w \<and> 0 \<le> j \<and> j < h \<and> isOnSnake \<lparr>xpos = i, ypos = j\<rparr> segs}"
  by (auto simp: occupiedCells_def isOnSnake_def)

lemma getEmptyCells_Nil_iff:
  "getEmptyCells w h segs = [] \<longleftrightarrow> set (occupiedCells w h segs) = {0..<w} \<times> {0..<h}"
proof -
  have "getEmptyCells w h segs = [] \<longleftrightarrow> set (getEmptyCells w h segs) = {}" by simp
  also have "\<dots> \<longleftrightarrow>
      (\<forall>i j. 0 \<le> i \<and> i < w \<and> 0 \<le> j \<and> j < h \<longrightarrow> isOnSnake \<lparr>xpos = i, ypos = j\<rparr> segs)"
  proof
    assume e: "set (getEmptyCells w h segs) = {}"
    show "\<forall>i j. 0 \<le> i \<and> i < w \<and> 0 \<le> j \<and> j < h \<longrightarrow> isOnSnake \<lparr>xpos = i, ypos = j\<rparr> segs"
    proof (intro allI impI)
      fix i j assume "0 \<le> i \<and> i < w \<and> 0 \<le> j \<and> j < h"
      moreover have "\<lparr>xpos = i, ypos = j\<rparr> \<notin> set (getEmptyCells w h segs)"
        using e by simp
      ultimately show "isOnSnake \<lparr>xpos = i, ypos = j\<rparr> segs"
        by (simp add: set_getEmptyCells)
    qed
  next
    assume "\<forall>i j. 0 \<le> i \<and> i < w \<and> 0 \<le> j \<and> j < h \<longrightarrow> isOnSnake \<lparr>xpos = i, ypos = j\<rparr> segs"
    then show "set (getEmptyCells w h segs) = {}"
      by (auto simp: set_getEmptyCells isOnSnake_def)
  qed
  also have "\<dots> \<longleftrightarrow> set (occupiedCells w h segs) = {0..<w} \<times> {0..<h}"
    by (auto simp: set_occupiedCells)
  finally show ?thesis .
qed

lemma occupiedCells_full_iff:
  "set (occupiedCells w h segs) = {0..<w} \<times> {0..<h}
     \<longleftrightarrow> length (occupiedCells w h segs) = nat w * nat h"
proof -
  have sub: "set (occupiedCells w h segs) \<subseteq> {0..<w} \<times> {0..<h}"
    by (auto simp: set_occupiedCells)
  have fin: "finite ({0..<w} \<times> {0..<h})" by simp
  have cg: "card ({0..<w} \<times> {0..<h}) = nat w * nat h" by (simp add: card_cartesian_product)
  have cl: "card (set (occupiedCells w h segs)) = length (occupiedCells w h segs)"
    unfolding occupiedCells_def by (rule distinct_card) (rule distinct_remdups)
  show ?thesis
  proof
    assume "set (occupiedCells w h segs) = {0..<w} \<times> {0..<h}"
    with cg cl show "length (occupiedCells w h segs) = nat w * nat h" by simp
  next
    assume "length (occupiedCells w h segs) = nat w * nat h"
    with cg cl have "card (set (occupiedCells w h segs)) = card ({0..<w} \<times> {0..<h})" by simp
    with card_subset_eq [OF fin sub] show "set (occupiedCells w h segs) = {0..<w} \<times> {0..<h}"
      by simp
  qed
qed

text \<open>
  Claim C2. On a grid of positive width \<open>w\<close> and height \<open>h\<close> (the merged
  configuration), \<open>spawnFood\<close> returns without throwing; a food it returns is on no
  cell of the snake; and it returns none exactly when the snake occupies \<open>k = w * h\<close>
  distinct cells of the grid.
\<close>

theorem spawnFood_exclusive:
  assumes "0 < cfg_gridWidth (merge_config config)"
      and "0 < cfg_gridHeight (merge_config config)"
  shows "\<exists>fd r'. spawnFood r0 segs config currentScore now = Inr (fd, r')
           \<and> (case fd of None \<Rightarrow> True | Some f \<Rightarrow> \<not> isOnSnake f segs)
           \<and> (fd = None \<longleftrightarrow>
                length (occupiedCells (cfg_gridWidth (merge_config config))
                          (cfg_gridHeight (merge_config config)) segs)
                  = nat (cfg_gridWidth (merge_config config))
                    * nat (cfg_gridHeight (merge_config config)))"
proof -
  let ?w = "cfg_gridWidth (merge_config config)"
  let ?h = "cfg_gridHeight (merge_config config)"
  show ?thesis
  proof (cases "getEmptyCells ?w ?h segs = []")
    case True
    then have "spawnFood r0 segs config currentScore now = Inr (None, r0)"
      by (rule spawnFood_full)
    moreover have "length (occupiedCells ?w ?h segs) = nat ?w * nat ?h"
      using True by (simp add: getEmptyCells_Nil_iff occupiedCells_full_iff)
    ultimately show ?thesis by simp
  next
    case False
    from spawnFood_nonfull [OF False, of r0 currentScore now]
    obtain pos f where pos: "pos \<in> set (getEmptyCells ?w ?h segs)"
      and f: "xpos f = xpos pos" "ypos f = ypos pos"
      and sp: "spawnFood r0 segs config currentScore now = Inr (Some f, draws 2 r0)"
      by fastforce
    have "\<not> isOnSnake pos segs" using pos by (simp add: set_getEmptyCells)
    then have "\<not> isOnSnake f segs" using f by (simp add: isOnSnake_def)
    moreover have "length (occupiedCells ?w ?h segs) \<noteq> nat ?w * nat ?h"
      using False by (simp add: getEmptyCells_Nil_iff occupiedCells_full_iff)
    ultimately show ?thesis using sp by simp
  qed
qed

lemma example_cells: "getEmptyCells 3 3 example_snake =
  [\<lparr>xpos = 0, ypos = 0\<rparr>, \<lparr>xpos = 0, ypos = 2\<rparr>, \<lparr>xpos = 1, ypos = 0\<rparr>, \<lparr>xpos = 1, ypos = 2\<rparr>,
   \<lparr>xpos = 2, ypos = 0\<rparr>, \<lparr>xpos = 2, ypos = 1\<rparr>, \<lparr>xpos = 2, ypos = 2\<rparr>]"
  by code_simp

lemma spawn_lo: "spawnFood \<lparr>seed = 47\<rparr> example_snake example_config 0 1000 =
         Inr (Some \<lparr>xpos = 2, ypos = 0, ftype = normal, spawnTime = 1000, expiresAt = None\<rparr>,
              \<lparr>seed = 3663131673\<rparr>)"
  by (simp add: spawnFood_def merge_config_def example_config_def example_cells SeededRNG_pick_def
        SeededRNG_next_def next_u32_def ToInt32_def)

lemma spawn_hi: "spawnFood \<lparr>seed = 47\<rparr> example_snake example_config 100 1000 =
         Inr (Some \<lparr>xpos = 2, ypos = 0, ftype = speed, spawnTime = 1000, expiresAt = Some 9000\<rparr>,
              \<lparr>seed = 3663131673\<rparr>)"
  by (simp add: spawnFood_def merge_config_def example_config_def example_cells SeededRNG_pick_def DEFAULT_CONFIG_def
        SeededRNG_next_def next_u32_def ToInt32_def)

lemma unit_cells: "getEmptyCells 1 1 unit_snake = []"
  by code_simp

theorem spawnFood_exclusive_witness:
  "0 < cfg_gridWidth (merge_config example_config)
   \<and> 0 < cfg_gridHeight (merge_config example_config)
   \<and> spawnFood \<lparr>seed = 47\<rparr> example_snake example_config 0 1000 =
         Inr (Some \<lparr>xpos = 2, ypos = 0, ftype = normal, spawnTime = 1000, expiresAt = None\<rparr>,
              \<lparr>seed = 3663131673\<rparr>)
   \<and> \<not> isOnSnake \<lparr>xpos = 2, ypos = 0\<rparr> example_snake
   \<and> length (occupiedCells 3 3 example_snake) \<noteq> nat 3 * nat 3
   \<and> 0 < cfg_gridWidth (merge_config unit_config)
   \<and> 0 < cfg_gridHeight (merge_config unit_config)
   \<and> spawnFood \<lparr>seed = 47\<rparr> unit_snake unit_config 0 1000 = Inr (None, \<lparr>seed = 47\<rparr>)
   \<and> length (occupiedCells 1 1 unit_snake) = nat 1 * nat 1"
proof -
  have e: "cfg_gridWidth (merge_config example_config) = 3"
          "cfg_gridHeight (merge_config example_config) = 3"
    by (simp_all add: merge_config_def example_config_def)
  have u: "cfg_gridWidth (merge_config unit_config) = 1"
          "cfg_gridHeight (merge_config unit_config) = 1"
    by (simp_all add: merge_config_def unit_config_def)
  have full: "spawnFood \<lparr>seed = 47\<rparr> unit_snake unit_config 0 1000 = Inr (None, \<lparr>seed = 47\<rparr>)"
    by (rule spawnFood_full) (simp add: u unit_cells)
  show ?thesis
    using spawnFood_exclusive [of example_config "\<lparr>seed = 47\<rparr>" example_snake 0 1000]
          spawnFood_exclusive [of unit_config "\<lparr>seed = 47\<rparr>" unit_snake 0 1000]
    by (simp add: e u spawn_lo full isOnSnake_def)
qed

text \<open>
  Claim C4. For a score \<open>lo \<le> 30\<close> and a score \<open>hi > 30\<close>, from the same generator,
  snake and configuration: either the board is full and both calls return none without a
  draw, or both calls return food on the same cell and leave the generator after exactly
  two draws (the position pick and the type roll); the type is normal for \<open>lo\<close>
  whatever the roll, and for \<open>hi\<close> it is the band of the second draw, in the order
  special, speed, slow, remainder normal.
\<close>

theorem spawnFood_type_and_draws:
  assumes "lo \<le> 30" and "30 < hi"
  shows "(spawnFood r0 segs config lo now = Inr (None, r0)
          \<and> spawnFood r0 segs config hi now = Inr (None, r0))
       \<or> (\<exists>f g. spawnFood r0 segs config lo now = Inr (Some f, draws 2 r0)
                \<and> spawnFood r0 segs config hi now = Inr (Some g, draws 2 r0)
                \<and> xpos f = xpos g \<and> ypos f = ypos g
                \<and> ftype f = normal
                \<and> ftype g = typeBands (merge_config config) (fst (SeededRNG_next (draws 1 r0))))"
proof (cases "getEmptyCells (cfg_gridWidth (merge_config config))
                (cfg_gridHeight (merge_config config)) segs = []")
  case True
  then show ?thesis by (simp add: spawnFood_full)
next
  case False
  have roll: "fst (SeededRNG_next (draws 1 r0)) = fst (SeededRNG_next (snd (SeededRNG_next r0)))"
    by simp
  have p: "SeededRNG_pick r0 xs = (fst (SeededRNG_pick r0 xs), snd (SeededRNG_next r0))" for xs :: "Vector2 list"
    using SeededRNG_pick_rng [of r0 xs] by (metis prod.collapse)
  obtain a where a: "fst (SeededRNG_pick r0 (getEmptyCells (cfg_gridWidth (merge_config config))
                (cfg_gridHeight (merge_config config)) segs)) = Some a"
    using SeededRNG_pick_nonempty [OF False, of r0] by blast
  have d: "draws 2 r0 = snd (SeededRNG_next (snd (SeededRNG_next r0)))"
    by (simp add: numeral_2_eq_2)
  show ?thesis
    using False assms a
    apply (intro disjI2)
    apply (subst (1 2) spawnFood_def)
    apply (subst (1 2) p)
    apply (simp add: Let_def d typeBands_def split: prod.splits)
    done
qed

theorem spawnFood_type_and_draws_witness:
  "(0::int) \<le> 30 \<and> (30::int) < 100
   \<and> spawnFood \<lparr>seed = 47\<rparr> example_snake example_config 0 1000 =
         Inr (Some \<lparr>xpos = 2, ypos = 0, ftype = normal, spawnTime = 1000, expiresAt = None\<rparr>,
              draws 2 \<lparr>seed = 47\<rparr>)
   \<and> spawnFood \<lparr>seed = 47\<rparr> example_snake example_config 100 1000 =
         Inr (Some \<lparr>xpos = 2, ypos = 0, ftype = speed, spawnTime = 1000, expiresAt = Some 9000\<rparr>,
              draws 2 \<lparr>seed = 47\<rparr>)
   \<and> typeBands (merge_config example_config) (fst (SeededRNG_next (draws 1 \<lparr>seed = 47\<rparr>))) = speed"
  using spawnFood_type_and_draws [of 0 100 "\<lparr>seed = 47\<rparr>" example_snake example_config 1000]
  by (simp add: spawn_lo spawn_hi)

section \<open>Properties of the generator\<close>

lemma call_nexts_instance:
  assumes "h a = Some r"
  shows "outputs_of a (fst (call_nexts sched h)) = next_seq (count_list sched a) r
       \<and> snd (call_nexts sched h) a = Some (draws (count_list sched a) r)"
  using assms
proof (induction sched arbitrary: h r)
  case Nil
  then show ?case by (simp add: outputs_of_def)
next
  case (Cons c cs)
  show ?case
  proof (cases "h c")
    case None
    with Cons.prems have ca: "c \<noteq> a" by auto
    have "outputs_of a (fst (call_nexts cs h)) = next_seq (count_list cs a) r
        \<and> snd (call_nexts cs h) a = Some (draws (count_list cs a) r)"
      using Cons.prems by (rule Cons.IH)
    with None ca show ?thesis by simp
  next
    case (Some rc)
    obtain v r' where n: "SeededRNG_next rc = (v, r')" by (cases "SeededRNG_next rc")
    let ?h1 = "h(c \<mapsto> r')"
    obtain out h' where rest: "call_nexts cs ?h1 = (out, h')"
      by (cases "call_nexts cs ?h1")
    have step: "call_nexts (c # cs) h = ((c, v) # out, h')"
      using Some n rest by simp
    show ?thesis
    proof (cases "c = a")
      case True
      with Some Cons.prems have rc: "rc = r" by simp
      have upd: "?h1 a = Some r'" using True by simp
      have "outputs_of a (fst (call_nexts cs ?h1)) = next_seq (count_list cs a) r'
          \<and> snd (call_nexts cs ?h1) a = Some (draws (count_list cs a) r')"
        using upd by (rule Cons.IH)
      then have "outputs_of a out = next_seq (count_list cs a) r'"
        and "h' a = Some (draws (count_list cs a) r')" by (simp_all only: rest fst_conv snd_conv)
      with True n rc show ?thesis unfolding step by (simp add: outputs_of_def)
    next
      case False
      then have upd: "?h1 a = Some r" using Cons.prems by simp
      have "outputs_of a (fst (call_nexts cs ?h1)) = next_seq (count_list cs a) r
          \<and> snd (call_nexts cs ?h1) a = Some (draws (count_list cs a) r)"
        using upd by (rule Cons.IH)
      then have "outputs_of a out = next_seq (count_list cs a) r"
        and "h' a = Some (draws (count_list cs a) r)" by (simp_all only: rest fst_conv snd_conv)
      with False show ?thesis unfolding step by (simp add: outputs_of_def)
    qed
  qed
qed

text \<open>
  Claim C1. Two instances built from the same seed \<open>s\<close> (a number or a string) under
  different references, with \<^verbatim>\<open>next()\<close> called on them in any interleaving: each
  instance yields the value sequence of a single generator seeded with \<open>s\<close> and holds
  that generator's state, so after equally many calls the two value sequences and the two
  internal states are equal. The string seed \<^verbatim>\<open>"daily-20240115"\<close> hashes to
  \<open>1496713703\<close>.
\<close>

theorem SeededRNG_deterministic:
  assumes "a \<noteq> b"
      and "call_nexts sched (heap_new b s (heap_new a s h)) = (out, h')"
  shows "outputs_of a out = next_seq (count_list sched a) (SeededRNG_new s)
       \<and> outputs_of b out = next_seq (count_list sched b) (SeededRNG_new s)
       \<and> h' a = Some (draws (count_list sched a) (SeededRNG_new s))
       \<and> h' b = Some (draws (count_list sched b) (SeededRNG_new s))
       \<and> (count_list sched a = count_list sched b \<longrightarrow>
            outputs_of a out = outputs_of b out \<and> h' a = h' b)
       \<and> SeededRNG_new (StrSeed ''daily-20240115'') = \<lparr>seed = 1496713703\<rparr>"
proof -
  let ?h0 = "heap_new b s (heap_new a s h)"
  have a: "?h0 a = Some (SeededRNG_new s)" using assms(1) by (simp add: heap_new_def)
  have b: "?h0 b = Some (SeededRNG_new s)" by (simp add: heap_new_def)
  have "hashString ''daily-20240115'' = 1496713703" by (simp add: hashString_def)
  with call_nexts_instance [of ?h0 a "SeededRNG_new s" sched]
       call_nexts_instance [of ?h0 b "SeededRNG_new s" sched] a b assms(2)
  show ?thesis by simp
qed

lemma SeededRNG_next_state: "snd (SeededRNG_next r) = r\<lparr>seed := seed r + 0x6d2b79f5\<rparr>"
  by (simp add: SeededRNG_next_def next_u32_def Let_def)

lemma daily_hash: "hashString ''daily-20240115'' = 1496713703"
  by (simp add: hashString_def)

theorem SeededRNG_deterministic_witness:
  "(0::nat) \<noteq> 1
   \<and> outputs_of 0 (fst (call_nexts [0, 1, 1, 0] daily_heap))
       = outputs_of 1 (fst (call_nexts [0, 1, 1, 0] daily_heap))
   \<and> snd (call_nexts [0, 1, 1, 0] daily_heap) 0 = Some \<lparr>seed = 5159845329\<rparr>
   \<and> snd (call_nexts [0, 1, 1, 0] daily_heap) 1 = Some \<lparr>seed = 5159845329\<rparr>"
proof -
  have ne: "(0::nat) \<noteq> 1" by simp
  have run: "call_nexts [0, 1, 1, 0]
               (heap_new 1 (StrSeed ''daily-20240115'')
                  (heap_new 0 (StrSeed ''daily-20240115'') Map.empty))
             = (fst (call_nexts [0, 1, 1, 0] daily_heap), snd (call_nexts [0, 1, 1, 0] daily_heap))"
    by (simp only: daily_heap_def prod.collapse)
  have c: "count_list [0, 1, 1, 0] (0::nat) = 2" "count_list [0, 1, 1, 0] (1::nat) = 2"
    by simp_all
  have d: "draws 2 (SeededRNG_new (StrSeed ''daily-20240115'')) = \<lparr>seed = 5159845329\<rparr>"
    by (simp add: daily_hash numeral_2_eq_2 SeededRNG_next_state)
  from SeededRNG_deterministic [OF ne run] ne show ?thesis
    by (simp only: c d) simp
qed

section \<open>Properties of the engine\<close>

lemma spawnFood_total:
  "\<exists>fd r'. spawnFood r0 segs config currentScore now = Inr (fd, r')"
proof (cases "getEmptyCells (cfg_gridWidth (merge_config config))
                (cfg_gridHeight (merge_config config)) segs = []")
  case True
  then show ?thesis by (simp add: spawnFood_full)
next
  case False
  from spawnFood_nonfull [OF False, of r0 currentScore now] show ?thesis by blast
qed

lemma startGame_result:
  "\<exists>fd r'. startGame m env s =
     Inr (s\<lparr>dailySeed := (if m = daily then getDailySeed (today env) else dailySeed s),
            mode := m, score := 0, highScore := stored_highScore env, combo := 0,
            lastEatTime := 0, direction := RIGHT, nextDirection := None,
            directionBuffer := [], tickCount := 0, gracePeriodTicks := GRACE_PERIOD_TICKS,
            baseTickRate := BASE_TICK_RATES m, tickRate := BASE_TICK_RATES m,
            snake :=
              [\<lparr>xpos = gridWidth s div 2, ypos = gridHeight s div 2,
                prevX = gridWidth s div 2, prevY = gridHeight s div 2\<rparr>,
               \<lparr>xpos = gridWidth s div 2 - 1, ypos = gridHeight s div 2,
                prevX = gridWidth s div 2 - 1, prevY = gridHeight s div 2\<rparr>,
               \<lparr>xpos = gridWidth s div 2 - 2, ypos = gridHeight s div 2,
                prevX = gridWidth s div 2 - 2, prevY = gridHeight s div 2\<rparr>],
            food := fd, rng := r', poppedTail := None, phase := playing\<rparr>)"
proof -
  let ?s1 = "(if m = daily
                then s\<lparr>dailySeed := getDailySeed (today env),
                       rng := SeededRNG_new (StrSeed (getDailySeed (today env)))\<rparr>
                else s\<lparr>rng := createDefaultRNG (date_now env)\<rparr>)"
  let ?s2 = "?s1\<lparr>mode := m, score := 0, highScore := stored_highScore env, combo := 0,
                  lastEatTime := 0, direction := RIGHT, nextDirection := None,
                  directionBuffer := [], tickCount := 0, gracePeriodTicks := GRACE_PERIOD_TICKS,
                  baseTickRate := BASE_TICK_RATES m, tickRate := BASE_TICK_RATES m\<rparr>"
  let ?s3 = "?s2\<lparr>snake :=
                   [\<lparr>xpos = gridWidth ?s2 div 2, ypos = gridHeight ?s2 div 2, prevX = gridWidth ?s2 div 2, prevY = gridHeight ?s2 div 2\<rparr>,
                    \<lparr>xpos = gridWidth ?s2 div 2 - 1, ypos = gridHeight ?s2 div 2, prevX = gridWidth ?s2 div 2 - 1, prevY = gridHeight ?s2 div 2\<rparr>,
                    \<lparr>xpos = gridWidth ?s2 div 2 - 2, ypos = gridHeight ?s2 div 2, prevX = gridWidth ?s2 div 2 - 2, prevY = gridHeight ?s2 div 2\<rparr>]\<rparr>"
  obtain fd r' where sp: "spawnFood (rng ?s3) (snake ?s3) (grid_config ?s3) 0 (spawn_now env) = Inr (fd, r')"
    using spawnFood_total by blast
  have "startGame m env s = Inr (?s3\<lparr>food := fd, rng := r', poppedTail := None, phase := playing\<rparr>)"
    unfolding startGame_def Let_def using sp by simp
  then show ?thesis by (intro exI [of _ fd] exI [of _ r']) (simp split: if_splits)
qed

lemma checkComboExpiration_frame: "\<exists>c. checkComboExpiration now s = s\<lparr>combo := c\<rparr>"
  by (cases "combo s > 0 \<and> now - lastEatTime s > comboWindow s")
     (auto simp: checkComboExpiration_def intro: exI [of _ "combo s"])

lemma checkFoodExpiration_frame:
  "\<exists>fd r'. checkFoodExpiration clk s = Inr (s\<lparr>food := fd, rng := r'\<rparr>)"
proof (cases "food s")
  case None
  then show ?thesis
    by (intro exI [of _ "food s"] exI [of _ "rng s"]) (simp add: checkFoodExpiration_def)
next
  case (Some f)
  show ?thesis
  proof (cases "isFoodValid f (now_tick clk)")
    case True
    with Some show ?thesis
      by (intro exI [of _ "food s"] exI [of _ "rng s"]) (simp add: checkFoodExpiration_def)
  next
    case False
    obtain fd r' where "spawnFood (rng s) (snake s) (grid_config s) (score s) (now_respawn clk) = Inr (fd, r')"
      using spawnFood_total by blast
    with Some False show ?thesis
      by (intro exI [of _ fd] exI [of _ r']) (simp add: checkFoodExpiration_def)
  qed
qed

lemma updateScore_frame: "\<exists>sc hs. updateScore ft s = s\<lparr>score := sc, highScore := hs\<rparr>"
proof (cases "score s + getFoodScore ft (combo s) > highScore s")
  case True
  then show ?thesis
    by (intro exI [of _ "score s + getFoodScore ft (combo s)"]
              exI [of _ "score s + getFoodScore ft (combo s)"])
       (simp add: updateScore_def Let_def)
next
  case False
  then show ?thesis
    by (intro exI [of _ "score s + getFoodScore ft (combo s)"] exI [of _ "highScore s"])
       (simp add: updateScore_def Let_def)
qed

lemma speedFoodEffect_frame:
  "\<exists>tr. speedFoodEffect ft s = s\<lparr>tickRate := tr\<rparr>
        \<and> (rateOK s \<longrightarrow> MIN_TICK_RATE \<le> tr \<and> tr \<le> baseTickRate s)"
  by (cases "ft = speed")
     (auto simp: speedFoodEffect_def rateOK_def intro: exI [of _ "tickRate s"])

lemma slowFoodEffect_frame:
  "\<exists>tr. slowFoodEffect ft s = s\<lparr>tickRate := tr\<rparr>
        \<and> (rateOK s \<longrightarrow> MIN_TICK_RATE \<le> tr \<and> tr \<le> baseTickRate s)"
  by (cases "ft = slow")
     (auto simp: slowFoodEffect_def rateOK_def intro: exI [of _ "tickRate s"])

lemma gradualSpeedIncrease_frame:
  "\<exists>tr. gradualSpeedIncrease ft s = s\<lparr>tickRate := tr\<rparr>
        \<and> (rateOK s \<longrightarrow> MIN_TICK_RATE \<le> tr \<and> tr \<le> baseTickRate s)"
proof -
  let ?target = "max MIN_TICK_RATE
                   (baseTickRate s - score s div SPEED_INCREMENT_SCORE * SPEED_INCREMENT_MS)"
  show ?thesis
  proof (cases "ft \<noteq> slow \<and> tickRate s > ?target")
    case True
    then have "gradualSpeedIncrease ft s = s\<lparr>tickRate := max ?target (tickRate s - 2)\<rparr>"
      by (simp add: gradualSpeedIncrease_def Let_def)
    moreover have "rateOK s \<longrightarrow> MIN_TICK_RATE \<le> max ?target (tickRate s - 2)
                     \<and> max ?target (tickRate s - 2) \<le> baseTickRate s"
      using True by (auto simp: rateOK_def)
    ultimately show ?thesis by blast
  next
    case False
    then have "gradualSpeedIncrease ft s = s\<lparr>tickRate := tickRate s\<rparr>"
      by (auto simp add: gradualSpeedIncrease_def Let_def)
    then show ?thesis by (intro exI [of _ "tickRate s"]) (simp add: rateOK_def)
  qed
qed

lemma eatFood_frame:
  "\<exists>c t sc hs tr pt fd r'. eatFood clk s =
     Inr (s\<lparr>combo := c, lastEatTime := t, score := sc, highScore := hs, tickRate := tr,
            poppedTail := pt, food := fd, rng := r'\<rparr>)
     \<and> (rateOK s \<longrightarrow> MIN_TICK_RATE \<le> tr \<and> tr \<le> baseTickRate s)"
proof (cases "food s")
  case None
  then have "eatFood clk s = Inr s" by (simp add: eatFood_def)
  then show ?thesis
    by (intro exI [of _ "combo s"] exI [of _ "lastEatTime s"] exI [of _ "score s"]
          exI [of _ "highScore s"] exI [of _ "tickRate s"] exI [of _ "poppedTail s"]
          exI [of _ "food s"] exI [of _ "rng s"]) (simp add: rateOK_def)
next
  case (Some f)
  let ?ft = "ftype f"
  let ?s1 = "updateCombo (now_eat clk) s"
  obtain sc hs where s2: "updateScore ?ft ?s1 = ?s1\<lparr>score := sc, highScore := hs\<rparr>"
    using updateScore_frame by blast
  let ?s2 = "?s1\<lparr>score := sc, highScore := hs\<rparr>"
  have ok2: "rateOK s \<Longrightarrow> rateOK ?s2" by (simp add: rateOK_def updateCombo_def)
  obtain t3 where s3: "speedFoodEffect ?ft ?s2 = ?s2\<lparr>tickRate := t3\<rparr>"
    and b3: "rateOK ?s2 \<longrightarrow> MIN_TICK_RATE \<le> t3 \<and> t3 \<le> baseTickRate ?s2"
    using speedFoodEffect_frame by blast
  let ?s3 = "?s2\<lparr>tickRate := t3\<rparr>"
  have ok3: "rateOK s \<Longrightarrow> rateOK ?s3" using b3 ok2 by (simp add: rateOK_def)
  obtain t4 where s4': "slowFoodEffect ?ft ?s3 = ?s3\<lparr>tickRate := t4\<rparr>"
    and b4: "rateOK ?s3 \<longrightarrow> MIN_TICK_RATE \<le> t4 \<and> t4 \<le> baseTickRate ?s3"
    using slowFoodEffect_frame by blast
  let ?s4 = "?s2\<lparr>tickRate := t4\<rparr>"
  have s4: "slowFoodEffect ?ft ?s3 = ?s4" using s4' by simp
  have ok4: "rateOK s \<Longrightarrow> rateOK ?s4" using b4 ok3 by (simp add: rateOK_def)
  obtain t5 where s5': "gradualSpeedIncrease ?ft ?s4 = ?s4\<lparr>tickRate := t5\<rparr>"
    and b5: "rateOK ?s4 \<longrightarrow> MIN_TICK_RATE \<le> t5 \<and> t5 \<le> baseTickRate ?s4"
    using gradualSpeedIncrease_frame by blast
  have s5: "gradualSpeedIncrease ?ft ?s4 = ?s2\<lparr>tickRate := t5\<rparr>" using s5' by simp
  let ?s6 = "?s2\<lparr>tickRate := t5, poppedTail := None\<rparr>"
  have b: "rateOK s \<longrightarrow> MIN_TICK_RATE \<le> t5 \<and> t5 \<le> baseTickRate s"
    using b5 ok4 by (simp add: updateCombo_def)
  obtain fd r' where sp: "spawnFood (rng ?s6) (snake ?s6) (grid_config ?s6) (score ?s6)
                            (now_eat_spawn clk) = Inr (fd, r')"
    using spawnFood_total by blast
  have "eatFood clk s = Inr (?s6\<lparr>food := fd, rng := r'\<rparr>)"
    unfolding eatFood_def Let_def using Some sp by (simp add: s2 s3 s4 s5)
  then have "eatFood clk s =
     Inr (s\<lparr>combo := combo ?s1, lastEatTime := now_eat clk, score := sc, highScore := hs,
            tickRate := t5, poppedTail := None, food := fd, rng := r'\<rparr>)"
    by (simp add: updateCombo_def)
  with b show ?thesis by blast
qed

lemma processDirectionBuffer_eq:
  "processDirectionBuffer s =
     s\<lparr>directionBuffer := tl (directionBuffer s), direction := appliedDirection s\<rparr>"
  by (cases "directionBuffer s")
     (simp_all add: processDirectionBuffer_def appliedDirection_def Let_def)

lemma appliedDirection_frame:
  "appliedDirection (s\<lparr>combo := c, food := fd, rng := r'\<rparr>) = appliedDirection s"
  by (simp add: appliedDirection_def split: list.splits)

lemma tick_unfold:
  "phase s = playing \<Longrightarrow>
   tick clk deltaMs s =
     (case tickPrefix clk s of
        Inl e \<Rightarrow> Inl e
      | Inr s2 \<Rightarrow>
          (case newHeadPosition s2 of
             Inl e \<Rightarrow> Inl e
           | Inr newHead \<Rightarrow>
               (if checkWallCollision newHead (gridWidth s2) (gridHeight s2)
                   \<or> checkSelfCollision newHead (snake s2) 1
                then (if gracePeriodTicks s2 > 0
                         \<or> (mode s2 = zen \<and> checkSelfCollision newHead (snake s2) 1)
                      then Inr (s2\<lparr>gracePeriodTicks := gracePeriodTicks s2 - 1\<rparr>)
                      else Inr (gameOver s2))
                else moveSnake clk newHead s2)))"
  by (simp add: tick_def tickPrefix_def Let_def split: sum.splits)

lemma tickPrefix_frame:
  "\<exists>c fd r'. tickPrefix clk s =
     Inr (s\<lparr>combo := c, food := fd, rng := r',
            directionBuffer := tl (directionBuffer s), direction := appliedDirection s,
            snake := map (\<lambda>seg. seg\<lparr>prevX := xpos seg, prevY := ypos seg\<rparr>) (snake s)\<rparr>)"
proof -
  obtain c where c: "checkComboExpiration (now_tick clk) s = s\<lparr>combo := c\<rparr>"
    using checkComboExpiration_frame by blast
  obtain fd r' where f: "checkFoodExpiration clk (s\<lparr>combo := c\<rparr>) = Inr (s\<lparr>combo := c, food := fd, rng := r'\<rparr>)"
    using checkFoodExpiration_frame [of clk "s\<lparr>combo := c\<rparr>"] by auto
  have "tickPrefix clk s =
     Inr (s\<lparr>combo := c, food := fd, rng := r',
            directionBuffer := tl (directionBuffer s), direction := appliedDirection s,
            snake := map (\<lambda>seg. seg\<lparr>prevX := xpos seg, prevY := ypos seg\<rparr>) (snake s)\<rparr>)"
    by (simp add: tickPrefix_def c f processDirectionBuffer_eq storePreviousPositions_def
          appliedDirection_frame)
  then show ?thesis by blast
qed

lemma positions_storePrev:
  "positions (map (\<lambda>seg. seg\<lparr>prevX := xpos seg, prevY := ypos seg\<rparr>) segs) = positions segs"
  by (simp add: positions_def)

lemma newHeadPosition_total:
  "snake s \<noteq> [] \<Longrightarrow> \<exists>nh. newHeadPosition s = Inr nh"
  by (cases "snake s") (simp_all add: newHeadPosition_def Let_def)

lemma moveSnake_effect:
  assumes "snake s \<noteq> []"
  shows "\<exists>s'. moveSnake clk nh s = Inr s'
           \<and> phase s' = phase s \<and> mode s' = mode s
           \<and> gridWidth s' = gridWidth s \<and> gridHeight s' = gridHeight s
           \<and> direction s' = direction s \<and> directionBuffer s' = directionBuffer s
           \<and> baseTickRate s' = baseTickRate s
           \<and> (rateOK s \<longrightarrow> rateOK s')
           \<and> length (snake s) \<le> length (snake s')
           \<and> gracePeriodTicks s - 1 \<le> gracePeriodTicks s'
           \<and> gracePeriodTicks s' \<le> gracePeriodTicks s"
proof -
  obtain hd0 rest where sn: "snake s = hd0 # rest" using assms by (cases "snake s") auto
  define s1 where
    "s1 = s\<lparr>snake := \<lparr>xpos = xpos nh, ypos = ypos nh, prevX = xpos hd0, prevY = ypos hd0\<rparr> # snake s\<rparr>"
  define pop where
    "pop = s1\<lparr>poppedTail := Some (last (snake s1)), snake := butlast (snake s1)\<rparr>"
  define eaten where
    "eaten = (case food s1 of
                Some f \<Rightarrow> if xpos nh = xpos f \<and> ypos nh = ypos f then eatFood clk s1 else Inr pop
              | None \<Rightarrow> Inr pop)"
  have ms: "moveSnake clk nh s =
              (case eaten of
                 Inl e \<Rightarrow> Inl e
               | Inr s2 \<Rightarrow>
                   Inr ((if gracePeriodTicks s2 > 0
                         then s2\<lparr>gracePeriodTicks := gracePeriodTicks s2 - 1\<rparr> else s2)
                        \<lparr>tickCount := tickCount (if gracePeriodTicks s2 > 0
                         then s2\<lparr>gracePeriodTicks := gracePeriodTicks s2 - 1\<rparr> else s2) + 1\<rparr>))"
    unfolding moveSnake_def eaten_def pop_def s1_def sn by (simp add: Let_def)
  have s1_fields: "phase s1 = phase s" "mode s1 = mode s" "gridWidth s1 = gridWidth s"
    "gridHeight s1 = gridHeight s" "direction s1 = direction s"
    "directionBuffer s1 = directionBuffer s" "baseTickRate s1 = baseTickRate s"
    "tickRate s1 = tickRate s" "gracePeriodTicks s1 = gracePeriodTicks s"
    "length (snake s1) = Suc (length (snake s))"
    by (simp_all add: s1_def)
  have "eaten = eatFood clk s1 \<or> eaten = Inr pop"
    by (simp add: eaten_def split: option.splits)
  then have "\<exists>s2. eaten = Inr s2
           \<and> phase s2 = phase s \<and> mode s2 = mode s
           \<and> gridWidth s2 = gridWidth s \<and> gridHeight s2 = gridHeight s
           \<and> direction s2 = direction s \<and> directionBuffer s2 = directionBuffer s
           \<and> baseTickRate s2 = baseTickRate s
           \<and> (rateOK s \<longrightarrow> rateOK s2)
           \<and> length (snake s) \<le> length (snake s2)
           \<and> gracePeriodTicks s2 = gracePeriodTicks s"
  proof
    assume e: "eaten = eatFood clk s1"
    obtain c t sc hs tr pt fd r' where
      ef: "eatFood clk s1 =
             Inr (s1\<lparr>combo := c, lastEatTime := t, score := sc, highScore := hs, tickRate := tr,
                    poppedTail := pt, food := fd, rng := r'\<rparr>)"
      and b: "rateOK s1 \<longrightarrow> MIN_TICK_RATE \<le> tr \<and> tr \<le> baseTickRate s1"
      using eatFood_frame [of clk s1] by blast
    have "rateOK s \<longrightarrow> rateOK s1" by (simp add: rateOK_def s1_fields)
    with b have "rateOK s \<longrightarrow> MIN_TICK_RATE \<le> tr \<and> tr \<le> baseTickRate s"
      by (simp add: s1_fields)
    then show ?thesis by (simp add: e ef rateOK_def s1_fields)
  next
    assume e: "eaten = Inr pop"
    have "length (snake pop) = length (snake s)" by (simp add: pop_def s1_fields)
    then show ?thesis by (simp add: e) (simp add: pop_def rateOK_def s1_fields)
  qed
  then obtain s2 where e2: "eaten = Inr s2"
    and f2: "phase s2 = phase s" "mode s2 = mode s"
            "gridWidth s2 = gridWidth s" "gridHeight s2 = gridHeight s"
            "direction s2 = direction s" "directionBuffer s2 = directionBuffer s"
            "baseTickRate s2 = baseTickRate s"
            "rateOK s \<longrightarrow> rateOK s2"
            "length (snake s) \<le> length (snake s2)"
            "gracePeriodTicks s2 = gracePeriodTicks s"
    by blast
  show ?thesis
  proof (cases "gracePeriodTicks s2 > 0")
    case True
    then have "moveSnake clk nh s =
        Inr (s2\<lparr>gracePeriodTicks := gracePeriodTicks s2 - 1, tickCount := tickCount s2 + 1\<rparr>)"
      by (simp add: ms e2)
    with f2 show ?thesis by (simp add: rateOK_def)
  next
    case False
    then have "moveSnake clk nh s = Inr (s2\<lparr>tickCount := tickCount s2 + 1\<rparr>)"
      by (simp add: ms e2)
    with f2 show ?thesis by (simp add: rateOK_def)
  qed
qed

lemma tick_not_playing: "phase s \<noteq> playing \<Longrightarrow> tick clk deltaMs s = Inr s"
  by (simp add: tick_def)

lemma tick_empty_snake:
  assumes "phase s = playing" and "snake s = []"
  shows "tick clk deltaMs s = Inl TypeError"
proof -
  obtain c fd r' where p: "tickPrefix clk s =
     Inr (s\<lparr>combo := c, food := fd, rng := r',
            directionBuffer := tl (directionBuffer s), direction := appliedDirection s,
            snake := map (\<lambda>seg. seg\<lparr>prevX := xpos seg, prevY := ypos seg\<rparr>) (snake s)\<rparr>)"
    using tickPrefix_frame by blast
  show ?thesis
    using assms by (simp add: tick_unfold p newHeadPosition_def)
qed

lemma tick_effect:
  assumes "phase s = playing" and "snake s \<noteq> []"
  shows "\<exists>s'. tick clk deltaMs s = Inr s'
           \<and> (phase s' = playing \<or> phase s' = gameover)
           \<and> mode s' = mode s
           \<and> gridWidth s' = gridWidth s \<and> gridHeight s' = gridHeight s
           \<and> direction s' = appliedDirection s
           \<and> directionBuffer s' = tl (directionBuffer s)
           \<and> baseTickRate s' = baseTickRate s
           \<and> (rateOK s \<longrightarrow> rateOK s')
           \<and> length (snake s) \<le> length (snake s')
           \<and> gracePeriodTicks s - 1 \<le> gracePeriodTicks s'"
proof -
  obtain c fd r' where p: "tickPrefix clk s =
     Inr (s\<lparr>combo := c, food := fd, rng := r',
            directionBuffer := tl (directionBuffer s), direction := appliedDirection s,
            snake := map (\<lambda>seg. seg\<lparr>prevX := xpos seg, prevY := ypos seg\<rparr>) (snake s)\<rparr>)"
    using tickPrefix_frame by blast
  define s2 where "s2 = s\<lparr>combo := c, food := fd, rng := r',
            directionBuffer := tl (directionBuffer s), direction := appliedDirection s,
            snake := map (\<lambda>seg. seg\<lparr>prevX := xpos seg, prevY := ypos seg\<rparr>) (snake s)\<rparr>"
  have p2: "tickPrefix clk s = Inr s2" using p by (simp add: s2_def)
  have f: "phase s2 = playing" "mode s2 = mode s" "gridWidth s2 = gridWidth s"
    "gridHeight s2 = gridHeight s" "direction s2 = appliedDirection s"
    "directionBuffer s2 = tl (directionBuffer s)" "baseTickRate s2 = baseTickRate s"
    "tickRate s2 = tickRate s" "length (snake s2) = length (snake s)"
    "gracePeriodTicks s2 = gracePeriodTicks s" "snake s2 \<noteq> []"
    using assms by (simp_all add: s2_def)
  obtain nh where nh: "newHeadPosition s2 = Inr nh"
    using newHeadPosition_total [OF f(11)] by blast
  have ok: "rateOK s \<longrightarrow> rateOK s2" by (simp add: rateOK_def f)
  define hit where
    "hit \<longleftrightarrow> checkWallCollision nh (gridWidth s2) (gridHeight s2)
             \<or> checkSelfCollision nh (snake s2) 1"
  define absorb where
    "absorb \<longleftrightarrow> gracePeriodTicks s2 > 0 \<or> (mode s2 = zen \<and> checkSelfCollision nh (snake s2) 1)"
  have t: "tick clk deltaMs s =
             (if hit then (if absorb then Inr (s2\<lparr>gracePeriodTicks := gracePeriodTicks s2 - 1\<rparr>)
                           else Inr (gameOver s2))
              else moveSnake clk nh s2)"
    unfolding hit_def absorb_def using assms(1) by (simp add: tick_unfold p2 nh)
  show ?thesis
  proof (cases hit)
    case True
    show ?thesis
    proof (cases absorb)
      case a: True
      with True t have "tick clk deltaMs s = Inr (s2\<lparr>gracePeriodTicks := gracePeriodTicks s2 - 1\<rparr>)"
        by simp
      then show ?thesis using f ok by (simp add: rateOK_def)
    next
      case a: False
      with True t have "tick clk deltaMs s = Inr (gameOver s2)" by simp
      then show ?thesis using f ok by (simp add: rateOK_def gameOver_def)
    qed
  next
    case False
    with t have m: "tick clk deltaMs s = moveSnake clk nh s2" by simp
    from moveSnake_effect [OF f(11), of clk nh] obtain s' where
      "moveSnake clk nh s2 = Inr s'"
      "phase s' = phase s2" "mode s' = mode s2"
      "gridWidth s' = gridWidth s2" "gridHeight s' = gridHeight s2"
      "direction s' = direction s2" "directionBuffer s' = directionBuffer s2"
      "baseTickRate s' = baseTickRate s2"
      "rateOK s2 \<longrightarrow> rateOK s'"
      "length (snake s2) \<le> length (snake s')"
      "gracePeriodTicks s2 - 1 \<le> gracePeriodTicks s'"
      by blast
    with m f ok show ?thesis by simp
  qed
qed

lemma setDirection_eq:
  "setDirection dir s =
     (if phase s \<noteq> playing \<or> OPPOSITE_DIRECTION dir = refDirection s \<or> dir = refDirection s
         \<or> \<not> length (directionBuffer s) < 2
      then s else s\<lparr>directionBuffer := directionBuffer s @ [dir]\<rparr>)"
proof -
  have r: "(if length (directionBuffer s) > 0
            then directionBuffer s ! (length (directionBuffer s) - 1)
            else direction s) = refDirection s"
    by (cases "directionBuffer s = []") (simp_all add: refDirection_def last_conv_nth)
  show ?thesis
    unfolding setDirection_def Let_def r by simp
qed

lemma setDirection_frame:
  "\<exists>b. setDirection dir s = s\<lparr>directionBuffer := b\<rparr>
       \<and> (length (directionBuffer s) \<le> 2 \<longrightarrow> length b \<le> 2)"
proof (cases "phase s \<noteq> playing \<or> OPPOSITE_DIRECTION dir = refDirection s \<or> dir = refDirection s
         \<or> \<not> length (directionBuffer s) < 2")
  case True
  then have "setDirection dir s = s" by (simp only: setDirection_eq if_True)
  then show ?thesis by (intro exI [of _ "directionBuffer s"]) simp
next
  case False
  then have "setDirection dir s = s\<lparr>directionBuffer := directionBuffer s @ [dir]\<rparr>"
    by (simp only: setDirection_eq if_False)
  moreover have "length (directionBuffer s) < 2" using False by simp
  ultimately show ?thesis by (intro exI [of _ "directionBuffer s @ [dir]"]) simp
qed

lemma startGame_inv:
  assumes "startGame m env s = Inr s'"
  shows "engineInv s' \<and> gracePeriodTicks s' = 3 \<and> phase s' = playing \<and> mode s' = m
         \<and> gridWidth s' = gridWidth s \<and> gridHeight s' = gridHeight s"
proof -
  from startGame_result [of m env s] assms obtain fd r' where
    "s' = s\<lparr>dailySeed := (if m = daily then getDailySeed (today env) else dailySeed s),
            mode := m, score := 0, highScore := stored_highScore env, combo := 0,
            lastEatTime := 0, direction := RIGHT, nextDirection := None,
            directionBuffer := [], tickCount := 0, gracePeriodTicks := GRACE_PERIOD_TICKS,
            baseTickRate := BASE_TICK_RATES m, tickRate := BASE_TICK_RATES m,
            snake :=
              [\<lparr>xpos = gridWidth s div 2, ypos = gridHeight s div 2,
                prevX = gridWidth s div 2, prevY = gridHeight s div 2\<rparr>,
               \<lparr>xpos = gridWidth s div 2 - 1, ypos = gridHeight s div 2,
                prevX = gridWidth s div 2 - 1, prevY = gridHeight s div 2\<rparr>,
               \<lparr>xpos = gridWidth s div 2 - 2, ypos = gridHeight s div 2,
                prevX = gridWidth s div 2 - 2, prevY = gridHeight s div 2\<rparr>],
            food := fd, rng := r', poppedTail := None, phase := playing\<rparr>"
    by auto
  then show ?thesis
    by (cases m) (simp_all add: engineInv_def rateOK_def MIN_TICK_RATE_def GRACE_PERIOD_TICKS_def)
qed

lemma phase_change_inv:
  "engineInv s \<Longrightarrow> engineInv (goToMenu s)"
  "engineInv s \<Longrightarrow> engineInv (pause s)"
  "engineInv s \<Longrightarrow> engineInv (resume s)"
  "engineInv s \<Longrightarrow> engineInv (togglePause s)"
  "engineInv s \<Longrightarrow> engineInv (setGridSize w h s)"
  by (simp_all add: goToMenu_def pause_def resume_def togglePause_def setGridSize_def
        engineInv_def rateOK_def)

lemma setDirection_inv: "engineInv s \<Longrightarrow> engineInv (setDirection dir s)"
proof -
  assume inv: "engineInv s"
  obtain b where "setDirection dir s = s\<lparr>directionBuffer := b\<rparr>"
    "length (directionBuffer s) \<le> 2 \<longrightarrow> length b \<le> 2"
    using setDirection_frame by blast
  with inv show ?thesis by (simp add: engineInv_def rateOK_def)
qed

lemma tick_inv:
  assumes "engineInv s" and "tick clk deltaMs s = Inr s'"
  shows "engineInv s'"
proof (cases "phase s = playing")
  case True
  with assms(1) have sn: "snake s \<noteq> []" by (simp add: engineInv_def)
  from tick_effect [OF True sn, of clk deltaMs] assms(2)
  have "phase s' = playing \<or> phase s' = gameover"
    and "directionBuffer s' = tl (directionBuffer s)"
    and "rateOK s \<longrightarrow> rateOK s'" and "length (snake s) \<le> length (snake s')"
    and "mode s' = mode s" and "baseTickRate s' = baseTickRate s"
    by auto
  moreover have "snake s' \<noteq> []" using sn calculation(4) by auto
  moreover have "length (tl (directionBuffer s)) \<le> 2"
    using assms(1) by (auto simp: engineInv_def)
  ultimately show ?thesis using assms(1) by (simp add: engineInv_def)
next
  case False
  with assms show ?thesis by (simp add: tick_not_playing)
qed

lemma perform_inv:
  assumes "engineInv s" and "perform c s = Inr s'"
  shows "engineInv s'"
proof (cases c)
  case (StartGame m env)
  with assms(2) show ?thesis using startGame_inv by simp
next
  case GoToMenu
  with assms show ?thesis using phase_change_inv(1) by auto
next
  case Pause
  with assms show ?thesis using phase_change_inv(2) by auto
next
  case Resume
  with assms show ?thesis using phase_change_inv(3) by auto
next
  case TogglePause
  with assms show ?thesis using phase_change_inv(4) by auto
next
  case (SetDirection dir)
  with assms show ?thesis using setDirection_inv by auto
next
  case (Tick clk deltaMs)
  with assms show ?thesis using tick_inv by auto
next
  case (SetGridSize w h)
  with assms show ?thesis using phase_change_inv(5) by auto
qed

lemma run_inv: "engineInv s \<Longrightarrow> run cs s = Inr s' \<Longrightarrow> engineInv s'"
proof (induction cs arbitrary: s)
  case Nil
  then show ?case by simp
next
  case (Cons c cs)
  from Cons.prems(2) obtain s1 where p: "perform c s = Inr s1" and r: "run cs s1 = Inr s'"
    by (auto split: sum.splits)
  from Cons.prems(1) p have "engineInv s1" by (rule perform_inv)
  then show ?case using r by (rule Cons.IH)
qed

lemma initial_inv: "engineInv (createInitialState env)"
  by (simp add: engineInv_def createInitialState_def rateOK_def MIN_TICK_RATE_def)

lemma perform_total: "engineInv s \<Longrightarrow> \<exists>s'. perform c s = Inr s'"
proof (cases c)
  case (StartGame m env)
  then show ?thesis using startGame_result [of m env s] by auto
next
  case (Tick clk deltaMs)
  assume inv: "engineInv s"
  show ?thesis
  proof (cases "phase s = playing")
    case True
    with inv have "snake s \<noteq> []" by (simp add: engineInv_def)
    from tick_effect [OF True this, of clk deltaMs] Tick show ?thesis by auto
  next
    case False
    with Tick show ?thesis by (simp add: tick_not_playing)
  qed
qed simp_all

lemma run_total: "engineInv s \<Longrightarrow> \<exists>s'. run cs s = Inr s'"
proof (induction cs arbitrary: s)
  case Nil
  then show ?case by simp
next
  case (Cons c cs)
  from perform_total [OF Cons.prems, of c] obtain s1 where p: "perform c s = Inr s1" by blast
  with Cons.prems have "engineInv s1" by (rule perform_inv)
  from Cons.IH [OF this] p show ?case by simp
qed

text \<open>A tick that moves the head onto the food, in terms of \<open>eatSteps\<close> and the respawn.\<close>

lemma tickPrefix_idle:
  assumes "\<not> (combo s > 0 \<and> now_tick clk - lastEatTime s > comboWindow s)"
      and "food s = Some f" and "isFoodValid f (now_tick clk)"
      and "directionBuffer s = []"
  shows "tickPrefix clk s = Inr (storePreviousPositions s)"
proof -
  have c: "checkComboExpiration (now_tick clk) s = s"
    using assms(1) by (simp add: checkComboExpiration_def)
  have f: "checkFoodExpiration clk s = Inr s"
    using assms(2,3) by (simp add: checkFoodExpiration_def)
  have d: "processDirectionBuffer s = s"
    using assms(4) by (simp add: processDirectionBuffer_def)
  show ?thesis by (simp add: tickPrefix_def c f d)
qed

lemma eatFood_steps:
  assumes "food s = Some f" and "s6 = eatSteps clk (ftype f) s"
      and "spawnFood (rng s6) (snake s6) (grid_config s6) (score s6) (now_eat_spawn clk)
             = Inr (fd, r')"
  shows "eatFood clk s = Inr (s6\<lparr>food := fd, rng := r'\<rparr>)"
  using assms(1) assms(3) [unfolded assms(2)]
  by (simp add: eatFood_def Let_def assms(2) eatSteps_def)

lemma moveSnake_eats:
  assumes "snake s = hd0 # rest" and "food s = Some f"
      and "xpos nh = xpos f" and "ypos nh = ypos f"
      and "eatFood clk (s\<lparr>snake := \<lparr>xpos = xpos nh, ypos = ypos nh,
                                       prevX = xpos hd0, prevY = ypos hd0\<rparr> # snake s\<rparr>) = Inr s2"
  shows "moveSnake clk nh s =
           Inr (s2\<lparr>gracePeriodTicks := (if gracePeriodTicks s2 > 0 then gracePeriodTicks s2 - 1
                                          else gracePeriodTicks s2),
                   tickCount := tickCount s2 + 1\<rparr>)"
proof -
  have "moveSnake clk nh s =
          (case eatFood clk (s\<lparr>snake := \<lparr>xpos = xpos nh, ypos = ypos nh,
                                       prevX = xpos hd0, prevY = ypos hd0\<rparr> # snake s\<rparr>) of
             Inl e \<Rightarrow> Inl e
           | Inr s2 \<Rightarrow>
               Inr ((if gracePeriodTicks s2 > 0
                     then s2\<lparr>gracePeriodTicks := gracePeriodTicks s2 - 1\<rparr> else s2)
                    \<lparr>tickCount := tickCount (if gracePeriodTicks s2 > 0
                     then s2\<lparr>gracePeriodTicks := gracePeriodTicks s2 - 1\<rparr> else s2) + 1\<rparr>))"
    unfolding moveSnake_def using assms(1-4) by (simp add: Let_def)
  then show ?thesis by (simp add: assms(5))
qed

lemma tick_eats:
  assumes "phase s = playing"
      and "tickPrefix clk s = Inr s2"
      and "snake s2 = hd0 # rest"
      and "newHeadPosition s2 = Inr nh"
      and "\<not> checkWallCollision nh (gridWidth s2) (gridHeight s2)"
      and "\<not> checkSelfCollision nh (snake s2) 1"
      and "food s2 = Some f" and "xpos nh = xpos f" and "ypos nh = ypos f"
      and "s6 = eatSteps clk (ftype f)
                  (s2\<lparr>snake := \<lparr>xpos = xpos nh, ypos = ypos nh,
                                   prevX = xpos hd0, prevY = ypos hd0\<rparr> # snake s2\<rparr>)"
      and "spawnFood (rng s6) (snake s6) (grid_config s6) (score s6) (now_eat_spawn clk)
             = Inr (fd, r')"
  shows "tick clk deltaMs s =
           Inr (s6\<lparr>food := fd, rng := r',
                   gracePeriodTicks := (if gracePeriodTicks s6 > 0 then gracePeriodTicks s6 - 1
                                        else gracePeriodTicks s6),
                   tickCount := tickCount s6 + 1\<rparr>)"
proof -
  let ?s1 = "s2\<lparr>snake := \<lparr>xpos = xpos nh, ypos = ypos nh,
                               prevX = xpos hd0, prevY = ypos hd0\<rparr> # snake s2\<rparr>"
  have f1: "food ?s1 = Some f" using assms(7) by simp
  have e: "eatFood clk ?s1 = Inr (s6\<lparr>food := fd, rng := r'\<rparr>)"
    using f1 assms(10) assms(11) by (rule eatFood_steps)
  have m: "moveSnake clk nh s2 =
             Inr (s6\<lparr>food := fd, rng := r'\<rparr>
                    \<lparr>gracePeriodTicks :=
                       (if gracePeriodTicks (s6\<lparr>food := fd, rng := r'\<rparr>) > 0
                        then gracePeriodTicks (s6\<lparr>food := fd, rng := r'\<rparr>) - 1
                        else gracePeriodTicks (s6\<lparr>food := fd, rng := r'\<rparr>)),
                     tickCount := tickCount (s6\<lparr>food := fd, rng := r'\<rparr>) + 1\<rparr>)"
    using assms(3) assms(7) assms(8) assms(9) e by (rule moveSnake_eats)
  have "tick clk deltaMs s = moveSnake clk nh s2"
    using assms(1,5,6) by (simp add: tick_unfold assms(2) assms(4))
  with m show ?thesis by simp
qed

section \<open>Sessions of the engine\<close>

lemma start_cells:
  "getEmptyCells 4 4 start_snake =
     [\<lparr>xpos = 0, ypos = 0\<rparr>, \<lparr>xpos = 0, ypos = 1\<rparr>, \<lparr>xpos = 0, ypos = 3\<rparr>,
      \<lparr>xpos = 1, ypos = 0\<rparr>, \<lparr>xpos = 1, ypos = 1\<rparr>, \<lparr>xpos = 1, ypos = 3\<rparr>,
      \<lparr>xpos = 2, ypos = 0\<rparr>, \<lparr>xpos = 2, ypos = 1\<rparr>, \<lparr>xpos = 2, ypos = 3\<rparr>,
      \<lparr>xpos = 3, ypos = 0\<rparr>, \<lparr>xpos = 3, ypos = 1\<rparr>, \<lparr>xpos = 3, ypos = 2\<rparr>,
      \<lparr>xpos = 3, ypos = 3\<rparr>]"
  by code_simp

lemma daily_seed0: "getDailySeed \<lparr>getFullYear = 2024, getMonth = 0, getDate = 15\<rparr> = ''daily-20240115''"
  by code_simp

lemma spawn_start:
  "spawnFood \<lparr>seed = 12345\<rparr> start_snake
     \<lparr>opt_gridWidth = Some 4, opt_gridHeight = Some 4, opt_specialChance = None,
      opt_speedChance = None, opt_slowChance = None, opt_specialDuration = None\<rparr> 0 0
   = Inr (Some \<lparr>xpos = 3, ypos = 3, ftype = normal, spawnTime = 0, expiresAt = None\<rparr>,
          \<lparr>seed = 3663143971\<rparr>)"
  by (simp add: spawnFood_def merge_config_def Let_def start_cells SeededRNG_pick_def
        SeededRNG_next_def next_u32_def ToInt32_def)

lemma start_example:
  "m \<noteq> daily \<Longrightarrow>
   startGame m env0 (setGridSize 4 4 (createInitialState env0)) = Inr (started m)"
  by (simp add: startGame_def createInitialState_def setGridSize_def env0_def Let_def
        grid_config_def createDefaultRNG_def start_snake_def [symmetric] spawn_start started_def
        GRACE_PERIOD_TICKS_def COMBO_WINDOW_MS_def daily_seed0)

lemmas tick_eval_defs =
  tick_def checkComboExpiration_def checkFoodExpiration_def isFoodValid_def
  processDirectionBuffer_def storePreviousPositions_def newHeadPosition_def
  getNextHeadPosition_def checkWallCollision_def checkSelfCollision_def moveSnake_def
  wrapPosition_def gameOver_def Let_def

lemma tick1_example: "tick clk0 100 (started classic) = Inr after_tick1"
  by (simp add: tick_eval_defs started_def after_tick1_def start_snake_def clk0_def)

lemma tick2_example: "tick clk0 100 after_tick1 = Inr after_tick2"
  by (simp add: tick_eval_defs started_def after_tick1_def after_tick2_def start_snake_def clk0_def)

lemma tick3_collides: "tickCollision clk0 after_tick2"
  by (simp add: tickCollision_def tickPrefix_def tick_eval_defs started_def after_tick1_def
        after_tick2_def start_snake_def clk0_def)

lemma tick3_example:
  "tick clk0 100 after_tick2 = Inr (after_tick2\<lparr>gracePeriodTicks := 0\<rparr>)"
  by (simp add: tick_eval_defs started_def after_tick1_def after_tick2_def start_snake_def clk0_def)

lemma tick4_example:
  "tick clk0 100 (after_tick2\<lparr>gracePeriodTicks := 0\<rparr>)
     = Inr (after_tick2\<lparr>gracePeriodTicks := 0, phase := gameover\<rparr>)"
  by (simp add: tick_eval_defs started_def after_tick1_def after_tick2_def start_snake_def clk0_def)

text \<open>
  Claim C10. In every state reached from the constructed engine by any session of public
  calls (\<open>startGame\<close>, \<open>tick\<close>, \<open>setDirection\<close>, \<open>pause\<close>, \<open>resume\<close>,
  \<open>togglePause\<close>, \<open>goToMenu\<close>, \<open>setGridSize\<close>), the tick rate lies between the floor
  of 50 ms and the base rate, and the base rate is the one of the current mode.
\<close>

theorem tickRate_bounds:
  assumes "run cs (createInitialState env) = Inr s"
  shows "50 \<le> tickRate s \<and> tickRate s \<le> baseTickRate s
         \<and> baseTickRate s = BASE_TICK_RATES (mode s)"
  using run_inv [OF initial_inv assms]
  by (simp add: engineInv_def rateOK_def MIN_TICK_RATE_def)

lemma ring_cells:
  "getEmptyCells 8 1 ring_snake0 =
     [\<lparr>xpos = 0, ypos = 0\<rparr>, \<lparr>xpos = 1, ypos = 0\<rparr>, \<lparr>xpos = 5, ypos = 0\<rparr>,
      \<lparr>xpos = 6, ypos = 0\<rparr>, \<lparr>xpos = 7, ypos = 0\<rparr>]"
  "getEmptyCells 8 1 ring_snake1 =
     [\<lparr>xpos = 0, ypos = 0\<rparr>, \<lparr>xpos = 1, ypos = 0\<rparr>, \<lparr>xpos = 6, ypos = 0\<rparr>,
      \<lparr>xpos = 7, ypos = 0\<rparr>]"
  "getEmptyCells 8 1 ring_snake2 =
     [\<lparr>xpos = 0, ypos = 0\<rparr>, \<lparr>xpos = 1, ypos = 0\<rparr>, \<lparr>xpos = 7, ypos = 0\<rparr>]"
  "getEmptyCells 8 1 ring_snake3 = [\<lparr>xpos = 0, ypos = 0\<rparr>, \<lparr>xpos = 1, ypos = 0\<rparr>]"
  "getEmptyCells 8 1 ring_snake4 = [\<lparr>xpos = 1, ypos = 0\<rparr>]"
  "getEmptyCells 8 1 ring_snake5 = []"
  by code_simp+

lemma ring_spawn0:
  "spawnFood \<lparr>seed = 1700000005690\<rparr> ring_snake0 ring_config 0 0
     = Inr (Some \<lparr>xpos = 5, ypos = 0, ftype = normal, spawnTime = 0, expiresAt = None\<rparr>,
            \<lparr>seed = 1703663137316\<rparr>)"
  by (simp add: spawnFood_def merge_config_def ring_config_def DEFAULT_CONFIG_def Let_def
        ring_cells SeededRNG_pick_def SeededRNG_next_def next_u32_def ToInt32_def)

lemma ring_spawn1:
  "spawnFood \<lparr>seed = 1703663137316\<rparr> ring_snake1 ring_config 15 150
     = Inr (Some \<lparr>xpos = 6, ypos = 0, ftype = normal, spawnTime = 150, expiresAt = None\<rparr>,
            \<lparr>seed = 1707326268942\<rparr>)"
  by (simp add: spawnFood_def merge_config_def ring_config_def DEFAULT_CONFIG_def Let_def
        ring_cells SeededRNG_pick_def SeededRNG_next_def next_u32_def ToInt32_def)

lemma ring_spawn2:
  "spawnFood \<lparr>seed = 1707326268942\<rparr> ring_snake2 ring_config 35 300
     = Inr (Some \<lparr>xpos = 7, ypos = 0, ftype = normal, spawnTime = 300, expiresAt = None\<rparr>,
            \<lparr>seed = 1710989400568\<rparr>)"
  by (simp add: spawnFood_def merge_config_def ring_config_def DEFAULT_CONFIG_def Let_def
        ring_cells SeededRNG_pick_def SeededRNG_next_def next_u32_def ToInt32_def)

lemma ring_spawn3:
  "spawnFood \<lparr>seed = 1710989400568\<rparr> ring_snake3 ring_config 60 450
     = Inr (Some \<lparr>xpos = 0, ypos = 0, ftype = slow, spawnTime = 450, expiresAt = Some 8450\<rparr>,
            \<lparr>seed = 1714652532194\<rparr>)"
  by (simp add: spawnFood_def merge_config_def ring_config_def DEFAULT_CONFIG_def Let_def
        ring_cells SeededRNG_pick_def SeededRNG_next_def next_u32_def ToInt32_def)

lemma ring_spawn4:
  "spawnFood \<lparr>seed = 1714652532194\<rparr> ring_snake4 ring_config 100 600
     = Inr (Some \<lparr>xpos = 1, ypos = 0, ftype = speed, spawnTime = 600, expiresAt = Some 8600\<rparr>,
            \<lparr>seed = 1718315663820\<rparr>)"
  by (simp add: spawnFood_def merge_config_def ring_config_def DEFAULT_CONFIG_def Let_def
        ring_cells SeededRNG_pick_def SeededRNG_next_def next_u32_def ToInt32_def)

lemma ring_spawn5:
  "spawnFood \<lparr>seed = 1718315663820\<rparr> ring_snake5 ring_config 155 750
     = Inr (None,
            \<lparr>seed = 1718315663820\<rparr>)"
  by (simp add: spawnFood_def merge_config_def ring_config_def DEFAULT_CONFIG_def Let_def
        ring_cells SeededRNG_pick_def SeededRNG_next_def next_u32_def ToInt32_def)

lemma daily_seed1:
  "getDailySeed \<lparr>getFullYear = 2023, getMonth = 10, getDate = 14\<rparr> = ''daily-20231114''"
  by code_simp

lemma ring_start_example:
  "startGame zen env1 (setGridSize 8 1 (createInitialState env1)) = Inr ring_start"
  by (simp add: startGame_def createInitialState_def setGridSize_def env1_def Let_def
        grid_config_def createDefaultRNG_def ring_snake0_def [symmetric]
        ring_config_def [symmetric] ring_spawn0 ring_start_def
        GRACE_PERIOD_TICKS_def COMBO_WINDOW_MS_def daily_seed1)

lemma ring_tick1: "tick (clk_at 150) 150 ring_start = Inr ring_eat1"
proof -
  let ?s2 = "storePreviousPositions ring_start"
  let ?hd = "\<lparr>xpos = 4, ypos = 0, prevX = 4, prevY = 0\<rparr>"
  let ?nh = "\<lparr>xpos = 5, ypos = 0\<rparr>"
  let ?f = "\<lparr>xpos = 5, ypos = 0, ftype = normal, spawnTime = 0, expiresAt = None\<rparr>"
  let ?s6 = "ring_start\<lparr>score := 15, highScore := 15, combo := 1, lastEatTime := 150,
                snake := ring_snake1, tickRate := 150, poppedTail := None\<rparr>"
  have ph: "phase ring_start = playing" by (simp add: ring_start_def)
  have p: "tickPrefix (clk_at 150) ring_start = Inr ?s2"
    by (rule tickPrefix_idle [where f = ?f])
       (simp_all add: ring_start_def clk_at_def isFoodValid_def)
  have sn: "snake ?s2 = ?hd # tl (snake ?s2)"
    by (simp add: storePreviousPositions_def ring_start_def ring_snake0_def)
  have nh: "newHeadPosition ?s2 = Inr ?nh"
    by (simp add: newHeadPosition_def getNextHeadPosition_def wrapPosition_def
          smod_int_alt_def storePreviousPositions_def ring_start_def ring_snake0_def)
  have free: "\<not> checkWallCollision ?nh (gridWidth ?s2) (gridHeight ?s2)"
    "\<not> checkSelfCollision ?nh (snake ?s2) 1"
    by (simp_all add: checkWallCollision_def checkSelfCollision_def
          storePreviousPositions_def ring_start_def ring_snake0_def)
  have fd: "food ?s2 = Some ?f"
    by (simp add: storePreviousPositions_def ring_start_def)
  have on: "xpos ?nh = xpos ?f" "ypos ?nh = ypos ?f" by simp_all
  have eat: "?s6 = eatSteps (clk_at 150) (ftype ?f)
                     (?s2\<lparr>snake := \<lparr>xpos = xpos ?nh, ypos = ypos ?nh,
                                        prevX = xpos ?hd, prevY = ypos ?hd\<rparr> # snake ?s2\<rparr>)"
    by (simp add: eatSteps_def updateCombo_def updateScore_def getFoodScore_def
          speedFoodEffect_def slowFoodEffect_def gradualSpeedIncrease_def Let_def
          MIN_TICK_RATE_def SPEED_INCREMENT_SCORE_def SPEED_INCREMENT_MS_def clk_at_def
          storePreviousPositions_def ring_start_def ring_snake0_def ring_snake1_def)
  have sp: "spawnFood (rng ?s6) (snake ?s6) (grid_config ?s6) (score ?s6)
              (now_eat_spawn (clk_at 150))
            = Inr (Some \<lparr>xpos = 6, ypos = 0, ftype = normal, spawnTime = 150, expiresAt = None\<rparr>,
                   \<lparr>seed = 1707326268942\<rparr>)"
    using ring_spawn1
    by (simp add: grid_config_def ring_config_def clk_at_def ring_start_def)
  from tick_eats [OF ph p sn nh free fd on eat sp, of 150]
  show ?thesis by (simp add: ring_start_def ring_eat1_def)
qed

lemma ring_tick2: "tick (clk_at 300) 150 ring_eat1 = Inr ring_eat2"
proof -
  let ?s2 = "storePreviousPositions ring_eat1"
  let ?hd = "\<lparr>xpos = 5, ypos = 0, prevX = 5, prevY = 0\<rparr>"
  let ?nh = "\<lparr>xpos = 6, ypos = 0\<rparr>"
  let ?f = "\<lparr>xpos = 6, ypos = 0, ftype = normal, spawnTime = 150, expiresAt = None\<rparr>"
  let ?s6 = "ring_eat1\<lparr>score := 35, highScore := 35, combo := 2, lastEatTime := 300,
                snake := ring_snake2, tickRate := 150, poppedTail := None\<rparr>"
  have ph: "phase ring_eat1 = playing" by (simp add: ring_start_def ring_eat1_def)
  have p: "tickPrefix (clk_at 300) ring_eat1 = Inr ?s2"
    by (rule tickPrefix_idle [where f = ?f])
       (simp_all add: ring_start_def ring_eat1_def clk_at_def isFoodValid_def)
  have sn: "snake ?s2 = ?hd # tl (snake ?s2)"
    by (simp add: storePreviousPositions_def ring_start_def ring_eat1_def ring_snake1_def)
  have nh: "newHeadPosition ?s2 = Inr ?nh"
    by (simp add: newHeadPosition_def getNextHeadPosition_def wrapPosition_def
          smod_int_alt_def storePreviousPositions_def ring_start_def ring_eat1_def ring_snake1_def)
  have free: "\<not> checkWallCollision ?nh (gridWidth ?s2) (gridHeight ?s2)"
    "\<not> checkSelfCollision ?nh (snake ?s2) 1"
    by (simp_all add: checkWallCollision_def checkSelfCollision_def
          storePreviousPositions_def ring_start_def ring_eat1_def ring_snake1_def)
  have fd: "food ?s2 = Some ?f"
    by (simp add: storePreviousPositions_def ring_start_def ring_eat1_def)
  have on: "xpos ?nh = xpos ?f" "ypos ?nh = ypos ?f" by simp_all
  have eat: "?s6 = eatSteps (clk_at 300) (ftype ?f)
                     (?s2\<lparr>snake := \<lparr>xpos = xpos ?nh, ypos = ypos ?nh,
                                        prevX = xpos ?hd, prevY = ypos ?hd\<rparr> # snake ?s2\<rparr>)"
    by (simp add: eatSteps_def updateCombo_def updateScore_def getFoodScore_def
          speedFoodEffect_def slowFoodEffect_def gradualSpeedIncrease_def Let_def
          MIN_TICK_RATE_def SPEED_INCREMENT_SCORE_def SPEED_INCREMENT_MS_def clk_at_def
          storePreviousPositions_def ring_start_def ring_eat1_def ring_snake1_def ring_snake2_def)
  have sp: "spawnFood (rng ?s6) (snake ?s6) (grid_config ?s6) (score ?s6)
              (now_eat_spawn (clk_at 300))
            = Inr (Some \<lparr>xpos = 7, ypos = 0, ftype = normal, spawnTime = 300, expiresAt = None\<rparr>,
                   \<lparr>seed = 1710989400568\<rparr>)"
    using ring_spawn2
    by (simp add: grid_config_def ring_config_def clk_at_def ring_start_def ring_eat1_def)
  from tick_eats [OF ph p sn nh free fd on eat sp, of 150]
  show ?thesis by (simp add: ring_start_def ring_eat1_def ring_eat2_def)
qed

lemma ring_tick3: "tick (clk_at 450) 150 ring_eat2 = Inr ring_eat3"
proof -
  let ?s2 = "storePreviousPositions ring_eat2"
  let ?hd = "\<lparr>xpos = 6, ypos = 0, prevX = 6, prevY = 0\<rparr>"
  let ?nh = "\<lparr>xpos = 7, ypos = 0\<rparr>"
  let ?f = "\<lparr>xpos = 7, ypos = 0, ftype = normal, spawnTime = 300, expiresAt = None\<rparr>"
  let ?s6 = "ring_eat2\<lparr>score := 60, highScore := 60, combo := 3, lastEatTime := 450,
                snake := ring_snake3, tickRate := 148, poppedTail := None\<rparr>"
  have ph: "phase ring_eat2 = playing" by (simp add: ring_start_def ring_eat1_def ring_eat2_def)
  have p: "tickPrefix (clk_at 450) ring_eat2 = Inr ?s2"
    by (rule tickPrefix_idle [where f = ?f])
       (simp_all add: ring_start_def ring_eat1_def ring_eat2_def clk_at_def isFoodValid_def)
  have sn: "snake ?s2 = ?hd # tl (snake ?s2)"
    by (simp add: storePreviousPositions_def ring_start_def ring_eat1_def ring_eat2_def ring_snake2_def)
  have nh: "newHeadPosition ?s2 = Inr ?nh"
    by (simp add: newHeadPosition_def getNextHeadPosition_def wrapPosition_def
          smod_int_alt_def storePreviousPositions_def ring_start_def ring_eat1_def ring_eat2_def ring_snake2_def)
  have free: "\<not> checkWallCollision ?nh (gridWidth ?s2) (gridHeight ?s2)"
    "\<not> checkSelfCollision ?nh (snake ?s2) 1"
    by (simp_all add: checkWallCollision_def checkSelfCollision_def
          storePreviousPositions_def ring_start_def ring_eat1_def ring_eat2_def ring_snake2_def)
  have fd: "food ?s2 = Some ?f"
    by (simp add: storePreviousPositions_def ring_start_def ring_eat1_def ring_eat2_def)
  have on: "xpos ?nh = xpos ?f" "ypos ?nh = ypos ?f" by simp_all
  have eat: "?s6 = eatSteps (clk_at 450) (ftype ?f)
                     (?s2\<lparr>snake := \<lparr>xpos = xpos ?nh, ypos = ypos ?nh,
                                        prevX = xpos ?hd, prevY = ypos ?hd\<rparr> # snake ?s2\<rparr>)"
    by (simp add: eatSteps_def updateCombo_def updateScore_def getFoodScore_def
          speedFoodEffect_def slowFoodEffect_def gradualSpeedIncrease_def Let_def
          MIN_TICK_RATE_def SPEED_INCREMENT_SCORE_def SPEED_INCREMENT_MS_def clk_at_def
          storePreviousPositions_def ring_start_def ring_eat1_def ring_eat2_def ring_snake2_def ring_snake3_def)
  have sp: "spawnFood (rng ?s6) (snake ?s6) (grid_config ?s6) (score ?s6)
              (now_eat_spawn (clk_at 450))
            = Inr (Some \<lparr>xpos = 0, ypos = 0, ftype = slow, spawnTime = 450, expiresAt = Some 8450\<rparr>,
                   \<lparr>seed = 1714652532194\<rparr>)"
    using ring_spawn3
    by (simp add: grid_config_def ring_config_def clk_at_def ring_start_def ring_eat1_def ring_eat2_def)
  from tick_eats [OF ph p sn nh free fd on eat sp, of 150]
  show ?thesis by (simp add: ring_start_def ring_eat1_def ring_eat2_def ring_eat3_def)
qed

lemma ring_tick4: "tick (clk_at 600) 148 ring_eat3 = Inr ring_eat4"
proof -
  let ?s2 = "storePreviousPositions ring_eat3"
  let ?hd = "\<lparr>xpos = 7, ypos = 0, prevX = 7, prevY = 0\<rparr>"
  let ?nh = "\<lparr>xpos = 0, ypos = 0\<rparr>"
  let ?f = "\<lparr>xpos = 0, ypos = 0, ftype = slow, spawnTime = 450, expiresAt = Some 8450\<rparr>"
  let ?s6 = "ring_eat3\<lparr>score := 100, highScore := 100, combo := 4, lastEatTime := 600,
                snake := ring_snake4, tickRate := 150, poppedTail := None\<rparr>"
  have ph: "phase ring_eat3 = playing" by (simp add: ring_start_def ring_eat1_def ring_eat2_def ring_eat3_def)
  have p: "tickPrefix (clk_at 600) ring_eat3 = Inr ?s2"
    by (rule tickPrefix_idle [where f = ?f])
       (simp_all add: ring_start_def ring_eat1_def ring_eat2_def ring_eat3_def clk_at_def isFoodValid_def)
  have sn: "snake ?s2 = ?hd # tl (snake ?s2)"
    by (simp add: storePreviousPositions_def ring_start_def ring_eat1_def ring_eat2_def ring_eat3_def ring_snake3_def)
  have nh: "newHeadPosition ?s2 = Inr ?nh"
    by (simp add: newHeadPosition_def getNextHeadPosition_def wrapPosition_def
          smod_int_alt_def storePreviousPositions_def ring_start_def ring_eat1_def ring_eat2_def ring_eat3_def ring_snake3_def)
  have free: "\<not> checkWallCollision ?nh (gridWidth ?s2) (gridHeight ?s2)"
    "\<not> checkSelfCollision ?nh (snake ?s2) 1"
    by (simp_all add: checkWallCollision_def checkSelfCollision_def
          storePreviousPositions_def ring_start_def ring_eat1_def ring_eat2_def ring_eat3_def ring_snake3_def)
  have fd: "food ?s2 = Some ?f"
    by (simp add: storePreviousPositions_def ring_start_def ring_eat1_def ring_eat2_def ring_eat3_def)
  have on: "xpos ?nh = xpos ?f" "ypos ?nh = ypos ?f" by simp_all
  have eat: "?s6 = eatSteps (clk_at 600) (ftype ?f)
                     (?s2\<lparr>snake := \<lparr>xpos = xpos ?nh, ypos = ypos ?nh,
                                        prevX = xpos ?hd, prevY = ypos ?hd\<rparr> # snake ?s2\<rparr>)"
    by (simp add: eatSteps_def updateCombo_def updateScore_def getFoodScore_def
          speedFoodEffect_def slowFoodEffect_def gradualSpeedIncrease_def Let_def
          MIN_TICK_RATE_def SPEED_INCREMENT_SCORE_def SPEED_INCREMENT_MS_def clk_at_def
          storePreviousPositions_def ring_start_def ring_eat1_def ring_eat2_def ring_eat3_def ring_snake3_def ring_snake4_def)
  have sp: "spawnFood (rng ?s6) (snake ?s6) (grid_config ?s6) (score ?s6)
              (now_eat_spawn (clk_at 600))
            = Inr (Some \<lparr>xpos = 1, ypos = 0, ftype = speed, spawnTime = 600, expiresAt = Some 8600\<rparr>,
                   \<lparr>seed = 1718315663820\<rparr>)"
    using ring_spawn4
    by (simp add: grid_config_def ring_config_def clk_at_def ring_start_def ring_eat1_def ring_eat2_def ring_eat3_def)
  from tick_eats [OF ph p sn nh free fd on eat sp, of 148]
  show ?thesis by (simp add: ring_start_def ring_eat1_def ring_eat2_def ring_eat3_def ring_eat4_def)
qed

lemma ring_tick5: "tick (clk_at 750) 150 ring_eat4 = Inr ring_eat5"
proof -
  let ?s2 = "storePreviousPositions ring_eat4"
  let ?hd = "\<lparr>xpos = 0, ypos = 0, prevX = 0, prevY = 0\<rparr>"
  let ?nh = "\<lparr>xpos = 1, ypos = 0\<rparr>"
  let ?f = "\<lparr>xpos = 1, ypos = 0, ftype = speed, spawnTime = 600, expiresAt = Some 8600\<rparr>"
  let ?s6 = "ring_eat4\<lparr>score := 155, highScore := 155, combo := 5, lastEatTime := 750,
                snake := ring_snake5, tickRate := 130, poppedTail := None\<rparr>"
  have ph: "phase ring_eat4 = playing" by (simp add: ring_start_def ring_eat1_def ring_eat2_def ring_eat3_def ring_eat4_def)
  have p: "tickPrefix (clk_at 750) ring_eat4 = Inr ?s2"
    by (rule tickPrefix_idle [where f = ?f])
       (simp_all add: ring_start_def ring_eat1_def ring_eat2_def ring_eat3_def ring_eat4_def clk_at_def isFoodValid_def)
  have sn: "snake ?s2 = ?hd # tl (snake ?s2)"
    by (simp add: storePreviousPositions_def ring_start_def ring_eat1_def ring_eat2_def ring_eat3_def ring_eat4_def ring_snake4_def)
  have nh: "newHeadPosition ?s2 = Inr ?nh"
    by (simp add: newHeadPosition_def getNextHeadPosition_def wrapPosition_def
          smod_int_alt_def storePreviousPositions_def ring_start_def ring_eat1_def ring_eat2_def ring_eat3_def ring_eat4_def ring_snake4_def)
  have free: "\<not> checkWallCollision ?nh (gridWidth ?s2) (gridHeight ?s2)"
    "\<not> checkSelfCollision ?nh (snake ?s2) 1"
    by (simp_all add: checkWallCollision_def checkSelfCollision_def
          storePreviousPositions_def ring_start_def ring_eat1_def ring_eat2_def ring_eat3_def ring_eat4_def ring_snake4_def)
  have fd: "food ?s2 = Some ?f"
    by (simp add: storePreviousPositions_def ring_start_def ring_eat1_def ring_eat2_def ring_eat3_def ring_eat4_def)
  have on: "xpos ?nh = xpos ?f" "ypos ?nh = ypos ?f" by simp_all
  have eat: "?s6 = eatSteps (clk_at 750) (ftype ?f)
                     (?s2\<lparr>snake := \<lparr>xpos = xpos ?nh, ypos = ypos ?nh,
                                        prevX = xpos ?hd, prevY = ypos ?hd\<rparr> # snake ?s2\<rparr>)"
    by (simp add: eatSteps_def updateCombo_def updateScore_def getFoodScore_def
          speedFoodEffect_def slowFoodEffect_def gradualSpeedIncrease_def Let_def
          MIN_TICK_RATE_def SPEED_INCREMENT_SCORE_def SPEED_INCREMENT_MS_def clk_at_def
          storePreviousPositions_def ring_start_def ring_eat1_def ring_eat2_def ring_eat3_def ring_eat4_def ring_snake4_def ring_snake5_def)
  have sp: "spawnFood (rng ?s6) (snake ?s6) (grid_config ?s6) (score ?s6)
              (now_eat_spawn (clk_at 750))
            = Inr (None,
                   \<lparr>seed = 1718315663820\<rparr>)"
    using ring_spawn5
    by (simp add: grid_config_def ring_config_def clk_at_def ring_start_def ring_eat1_def ring_eat2_def ring_eat3_def ring_eat4_def)
  from tick_eats [OF ph p sn nh free fd on eat sp, of 150]
  show ?thesis by (simp add: ring_start_def ring_eat1_def ring_eat2_def ring_eat3_def ring_eat4_def ring_eat5_def)
qed

lemma ring_run3:
  "run [SetGridSize 8 1, StartGame zen env1, Tick (clk_at 150) 150, Tick (clk_at 300) 150,
        Tick (clk_at 450) 150]
     (createInitialState env1) = Inr ring_eat3"
  by (simp add: ring_start_example ring_tick1 ring_tick2 ring_tick3)

lemma ring_run4:
  "run [SetGridSize 8 1, StartGame zen env1, Tick (clk_at 150) 150, Tick (clk_at 300) 150,
        Tick (clk_at 450) 150, Tick (clk_at 600) 148]
     (createInitialState env1) = Inr ring_eat4"
  by (simp add: ring_start_example ring_tick1 ring_tick2 ring_tick3 ring_tick4)

lemma ring_run5:
  "run [SetGridSize 8 1, StartGame zen env1, Tick (clk_at 150) 150, Tick (clk_at 300) 150,
        Tick (clk_at 450) 150, Tick (clk_at 600) 148, Tick (clk_at 750) 150]
     (createInitialState env1) = Inr ring_eat5"
  by (simp add: ring_start_example ring_tick1 ring_tick2 ring_tick3 ring_tick4 ring_tick5)

text \<open>
  A session for C10 in which the tick rate changes three times: a zen game on an
  \<open>8 \<times> 1\<close> grid whose five ticks all eat. The third food is a normal one that brings the
  score to \<open>60\<close>, so the gradual speed increase lowers the rate from \<open>150\<close> to \<open>148\<close>; the
  fourth is a slow food, \<open>min(150, 148 + 30)\<close> caps the rate at the base rate \<open>150\<close>; the
  fifth is a speed food, which lowers the rate to \<open>130\<close>. The bounds hold after each of
  them.
\<close>

theorem tickRate_bounds_witness:
  "(run [SetGridSize 8 1, StartGame zen env1, Tick (clk_at 150) 150, Tick (clk_at 300) 150,
         Tick (clk_at 450) 150]
      (createInitialState env1) = Inr ring_eat3
    \<and> tickRate ring_eat3 = 148 \<and> baseTickRate ring_eat3 = 150
    \<and> 50 \<le> tickRate ring_eat3 \<and> tickRate ring_eat3 \<le> baseTickRate ring_eat3
    \<and> baseTickRate ring_eat3 = BASE_TICK_RATES (mode ring_eat3))
   \<and> (run [SetGridSize 8 1, StartGame zen env1, Tick (clk_at 150) 150, Tick (clk_at 300) 150,
            Tick (clk_at 450) 150, Tick (clk_at 600) 148]
         (createInitialState env1) = Inr ring_eat4
       \<and> tickRate ring_eat4 = 150 \<and> baseTickRate ring_eat4 = 150
       \<and> 50 \<le> tickRate ring_eat4 \<and> tickRate ring_eat4 \<le> baseTickRate ring_eat4
       \<and> baseTickRate ring_eat4 = BASE_TICK_RATES (mode ring_eat4))
   \<and> (run [SetGridSize 8 1, StartGame zen env1, Tick (clk_at 150) 150, Tick (clk_at 300) 150,
            Tick (clk_at 450) 150, Tick (clk_at 600) 148, Tick (clk_at 750) 150]
         (createInitialState env1) = Inr ring_eat5
       \<and> tickRate ring_eat5 = 130 \<and> baseTickRate ring_eat5 = 150
       \<and> 50 \<le> tickRate ring_eat5 \<and> tickRate ring_eat5 \<le> baseTickRate ring_eat5
       \<and> baseTickRate ring_eat5 = BASE_TICK_RATES (mode ring_eat5))"
proof -
  have r3: "tickRate ring_eat3 = 148" "baseTickRate ring_eat3 = 150"
    by (simp_all add: ring_eat3_def ring_eat2_def ring_eat1_def ring_start_def)
  have r4: "tickRate ring_eat4 = 150" "baseTickRate ring_eat4 = 150"
    by (simp_all add: ring_eat4_def ring_eat3_def ring_eat2_def ring_eat1_def ring_start_def)
  have r5: "tickRate ring_eat5 = 130" "baseTickRate ring_eat5 = 150"
    by (simp_all add: ring_eat5_def ring_eat4_def ring_eat3_def ring_eat2_def ring_eat1_def
          ring_start_def)
  from tickRate_bounds [OF ring_run3] tickRate_bounds [OF ring_run4]
    tickRate_bounds [OF ring_run5] ring_run3 ring_run4 ring_run5 r3 r4 r5
  show ?thesis by blast
qed

lemma perform_grace:
  assumes "engineInv s" and "perform c s = Inr s'" and "3 - n \<le> gracePeriodTicks s" and "0 \<le> n"
  shows "3 - n - (if isTick c then 1 else 0) \<le> gracePeriodTicks s'"
proof (cases c)
  case (StartGame m env)
  with assms(2) have "gracePeriodTicks s' = 3" using startGame_inv by simp
  with StartGame assms(4) show ?thesis by simp
next
  case (Tick clk deltaMs)
  show ?thesis
  proof (cases "phase s = playing")
    case True
    with assms(1) have sn: "snake s \<noteq> []" by (simp add: engineInv_def)
    from tick_effect [OF True sn, of clk deltaMs] Tick assms(2)
    have "gracePeriodTicks s - 1 \<le> gracePeriodTicks s'" by auto
    with Tick assms(3) show ?thesis by simp
  next
    case False
    with Tick assms show ?thesis by (simp add: tick_not_playing)
  qed
next
  case GoToMenu
  with assms show ?thesis by (auto simp: goToMenu_def)
next
  case Pause
  with assms show ?thesis by (auto simp: pause_def)
next
  case Resume
  with assms show ?thesis by (auto simp: resume_def)
next
  case TogglePause
  with assms show ?thesis by (auto simp: togglePause_def pause_def resume_def)
next
  case (SetDirection dir)
  obtain b where "setDirection dir s = s\<lparr>directionBuffer := b\<rparr>"
    using setDirection_frame by blast
  with SetDirection assms show ?thesis by auto
next
  case (SetGridSize w h)
  with assms show ?thesis by (auto simp: setGridSize_def)
qed

lemma run_grace:
  "engineInv s \<Longrightarrow> run cs s = Inr s' \<Longrightarrow> 3 - n \<le> gracePeriodTicks s \<Longrightarrow> 0 \<le> n \<Longrightarrow>
   3 - n - int (length (filter isTick cs)) \<le> gracePeriodTicks s'"
proof (induction cs arbitrary: s n)
  case Nil
  then show ?case by simp
next
  case (Cons c cs)
  from Cons.prems(2) obtain s1 where p: "perform c s = Inr s1" and r: "run cs s1 = Inr s'"
    by (auto split: sum.splits)
  from Cons.prems(1) p have inv1: "engineInv s1" by (rule perform_inv)
  let ?k = "if isTick c then 1 else (0::int)"
  have g1: "3 - (n + ?k) \<le> gracePeriodTicks s1"
    using perform_grace [OF Cons.prems(1) p Cons.prems(3) Cons.prems(4)] by simp
  have "0 \<le> n + ?k" using Cons.prems(4) by simp
  from Cons.IH [OF inv1 r g1 this] show ?case by (cases "isTick c") simp_all
qed

lemma tick_absorbs:
  assumes "tickCollision clk s" and "0 < gracePeriodTicks s"
  shows "\<exists>s'. tick clk deltaMs s = Inr s' \<and> phase s' = playing
              \<and> positions (snake s') = positions (snake s)
              \<and> gracePeriodTicks s' = gracePeriodTicks s - 1"
proof -
  from assms(1) have ph: "phase s = playing" by (simp add: tickCollision_def)
  obtain c fd r' where p: "tickPrefix clk s =
     Inr (s\<lparr>combo := c, food := fd, rng := r',
            directionBuffer := tl (directionBuffer s), direction := appliedDirection s,
            snake := map (\<lambda>seg. seg\<lparr>prevX := xpos seg, prevY := ypos seg\<rparr>) (snake s)\<rparr>)"
    using tickPrefix_frame by blast
  define s2 where "s2 = s\<lparr>combo := c, food := fd, rng := r',
            directionBuffer := tl (directionBuffer s), direction := appliedDirection s,
            snake := map (\<lambda>seg. seg\<lparr>prevX := xpos seg, prevY := ypos seg\<rparr>) (snake s)\<rparr>"
  have p2: "tickPrefix clk s = Inr s2" using p by (simp add: s2_def)
  have f: "phase s2 = playing" "gracePeriodTicks s2 = gracePeriodTicks s"
    "positions (snake s2) = positions (snake s)"
    using ph by (simp_all add: s2_def positions_storePrev)
  from assms(1) obtain nh where nh: "newHeadPosition s2 = Inr nh"
    and hit: "checkWallCollision nh (gridWidth s2) (gridHeight s2)
              \<or> checkSelfCollision nh (snake s2) 1"
    by (auto simp: tickCollision_def p2 split: sum.splits)
  have "tick clk deltaMs s = Inr (s2\<lparr>gracePeriodTicks := gracePeriodTicks s2 - 1\<rparr>)"
    using ph hit assms(2) f(2) by (simp add: tick_unfold p2 nh)
  then show ?thesis using f by simp
qed

text \<open>
  Claim C3. After \<open>startGame\<close> in any mode, let a session follow that contains at most two
  calls of \<open>tick\<close> (among any other calls), so that the next tick is at most the third. If
  that tick computes a new head that hits a wall or the body, the collision is absorbed:
  \<open>tick\<close> returns, the phase is still playing, and every segment is on the cell it was on.
\<close>

theorem grace_period_absorbs:
  assumes "startGame m env s0 = Inr s1"
      and "run cs s1 = Inr s"
      and "length (filter isTick cs) \<le> 2"
      and "tickCollision clk s"
  shows "\<exists>s'. tick clk deltaMs s = Inr s' \<and> phase s' = playing
              \<and> positions (snake s') = positions (snake s)"
proof -
  from assms(1) have inv1: "engineInv s1" and g1: "gracePeriodTicks s1 = 3"
    using startGame_inv by blast+
  have "3 - 0 - int (length (filter isTick cs)) \<le> gracePeriodTicks s"
    using run_grace [OF inv1 assms(2), of 0] g1 by simp
  with assms(3) have "0 < gracePeriodTicks s" by simp
  from tick_absorbs [OF assms(4) this, of deltaMs] show ?thesis by blast
qed

text \<open>
  A session for C3 on the \<open>4 \<times> 4\<close> grid: the first tick moves the head to the right
  edge, the second and the third run into the wall and are absorbed.
\<close>

theorem grace_period_absorbs_witness:
  "startGame classic env0 (setGridSize 4 4 (createInitialState env0)) = Inr (started classic)
   \<and> run [Tick clk0 100, Tick clk0 100] (started classic) = Inr after_tick2
   \<and> length (filter isTick [Tick clk0 100, Tick clk0 100]) \<le> 2
   \<and> tickCollision clk0 after_tick2
   \<and> tick clk0 100 after_tick2 = Inr (after_tick2\<lparr>gracePeriodTicks := 0\<rparr>)
   \<and> phase (after_tick2\<lparr>gracePeriodTicks := 0\<rparr>) = playing
   \<and> positions (snake (after_tick2\<lparr>gracePeriodTicks := 0\<rparr>)) = positions (snake after_tick2)"
proof -
  have a: "startGame classic env0 (setGridSize 4 4 (createInitialState env0)) = Inr (started classic)"
    by (simp add: start_example)
  have b: "run [Tick clk0 100, Tick clk0 100] (started classic) = Inr after_tick2"
    by (simp add: tick1_example tick2_example)
  have c: "length (filter isTick [Tick clk0 100, Tick clk0 100]) \<le> 2" by simp
  from grace_period_absorbs [OF a b c tick3_collides, of 100] a b c tick3_collides
  show ?thesis by (simp add: tick3_example)
qed

lemma spawn_zen:
  "spawnFood \<lparr>seed = 12345\<rparr> example_snake example_config 0 0
   = Inr (Some \<lparr>xpos = 2, ypos = 2, ftype = normal, spawnTime = 0, expiresAt = None\<rparr>,
          \<lparr>seed = 3663143971\<rparr>)"
  by (simp add: spawnFood_def merge_config_def example_config_def Let_def example_cells
        SeededRNG_pick_def SeededRNG_next_def next_u32_def ToInt32_def)

lemma zen_start_example:
  "startGame zen env0 (setGridSize 3 3 (createInitialState env0)) = Inr zen_started"
  by (simp add: startGame_def createInitialState_def setGridSize_def env0_def Let_def
        grid_config_def createDefaultRNG_def example_snake_def [symmetric]
        example_config_def [symmetric] spawn_zen zen_started_def
        GRACE_PERIOD_TICKS_def COMBO_WINDOW_MS_def daily_seed0)

lemma zen_move_example: "tick clk0 150 zen_started = Inr zen_moved"
  by (simp add: tick_eval_defs smod_int_alt_def zen_started_def zen_moved_def example_snake_def clk0_def)

lemma zen_first_block: "tick clk0 150 zen_moved = Inr (zen_blocked 1)"
  by (simp add: tick_eval_defs smod_int_alt_def zen_started_def zen_moved_def zen_blocked_def example_snake_def
        clk0_def)

lemma zen_stays_blocked: "tick clk0 150 (zen_blocked g) = Inr (zen_blocked (g - 1))"
  by (simp add: tick_eval_defs smod_int_alt_def zen_started_def zen_moved_def zen_blocked_def example_snake_def
        clk0_def)

lemma zen_blocked_collides: "tickCollision clk0 (zen_blocked g)"
  by (simp add: tickCollision_def tickPrefix_def tick_eval_defs smod_int_alt_def zen_started_def zen_moved_def
        zen_blocked_def example_snake_def clk0_def)

lemma zen_run_example:
  "run [SetGridSize 3 3, StartGame zen env0, Tick clk0 150, Tick clk0 150, Tick clk0 150,
        Tick clk0 150] (createInitialState env0) = Inr (zen_blocked (-1))"
  using zen_stays_blocked [of 1] zen_stays_blocked [of 0]
  by (simp add: zen_start_example zen_move_example zen_first_block)

lemma full_buffer_run:
  "run [SetGridSize 4 4, StartGame classic env0, SetDirection UP, SetDirection LEFT]
     (createInitialState env0) = Inr full_buffer"
  by (simp add: start_example)
     (simp add: setDirection_eq refDirection_def started_def full_buffer_def)

lemma zen_no_wall:
  assumes "mode s = zen" and "0 < gridWidth s" and "0 < gridHeight s"
      and "newHeadPosition s = Inr nh"
  shows "\<not> checkWallCollision nh (gridWidth s) (gridHeight s)"
proof (cases "snake s")
  case Nil
  with assms(4) show ?thesis by (simp add: newHeadPosition_def)
next
  case (Cons hd0 rest)
  with assms(1,4) have
    "nh = wrapPosition (getNextHeadPosition hd0 (DIRECTION_VECTORS (direction s)))
            (gridWidth s) (gridHeight s)"
    by (simp add: newHeadPosition_def Let_def)
  then have nh: "nh = \<lparr>xpos = (xpos hd0 + xpos (DIRECTION_VECTORS (direction s))) mod gridWidth s,
                      ypos = (ypos hd0 + ypos (DIRECTION_VECTORS (direction s))) mod gridHeight s\<rparr>"
    using assms(2,3) by (simp add: wrapPosition_mod getNextHeadPosition_def)
  have "0 \<le> xpos nh" "xpos nh < gridWidth s" "0 \<le> ypos nh" "ypos nh < gridHeight s"
    using assms(2,3) by (simp_all add: nh)
  then show ?thesis by (simp add: checkWallCollision_def)
qed

text \<open>
  Claim C9. In every reachable playing state in zen mode with positive grid sizes,
  \<open>tick\<close> returns and the phase is still playing: the wrapped head is inside the grid,
  so there is no wall hit, and a hit on the body is absorbed whatever the grace counter is,
  leaving every segment on its cell.
\<close>

theorem zen_never_gameover:
  assumes "run cs (createInitialState env) = Inr s"
      and "phase s = playing" and "mode s = zen"
      and "0 < gridWidth s" and "0 < gridHeight s"
  shows "\<exists>s'. tick clk deltaMs s = Inr s' \<and> phase s' = playing
              \<and> (tickCollision clk s \<longrightarrow> positions (snake s') = positions (snake s))"
proof -
  have "engineInv s" using initial_inv assms(1) by (rule run_inv)
  with assms(2) have sn: "snake s \<noteq> []" by (simp add: engineInv_def)
  obtain c fd r' where p: "tickPrefix clk s =
     Inr (s\<lparr>combo := c, food := fd, rng := r',
            directionBuffer := tl (directionBuffer s), direction := appliedDirection s,
            snake := map (\<lambda>seg. seg\<lparr>prevX := xpos seg, prevY := ypos seg\<rparr>) (snake s)\<rparr>)"
    using tickPrefix_frame by blast
  define s2 where "s2 = s\<lparr>combo := c, food := fd, rng := r',
            directionBuffer := tl (directionBuffer s), direction := appliedDirection s,
            snake := map (\<lambda>seg. seg\<lparr>prevX := xpos seg, prevY := ypos seg\<rparr>) (snake s)\<rparr>"
  have p2: "tickPrefix clk s = Inr s2" using p by (simp add: s2_def)
  have f: "phase s2 = playing" "mode s2 = zen" "0 < gridWidth s2" "0 < gridHeight s2"
    "snake s2 \<noteq> []" "positions (snake s2) = positions (snake s)"
    using assms sn by (simp_all add: s2_def positions_storePrev)
  obtain nh where nh: "newHeadPosition s2 = Inr nh"
    using newHeadPosition_total [OF f(5)] by blast
  have nowall: "\<not> checkWallCollision nh (gridWidth s2) (gridHeight s2)"
    using f(2,3,4) nh by (rule zen_no_wall)
  show ?thesis
  proof (cases "checkSelfCollision nh (snake s2) 1")
    case True
    with f(2) have "tick clk deltaMs s = Inr (s2\<lparr>gracePeriodTicks := gracePeriodTicks s2 - 1\<rparr>)"
      using assms(2) by (simp add: tick_unfold p2 nh)
    with f(1,6) show ?thesis by simp
  next
    case False
    with nowall have m: "tick clk deltaMs s = moveSnake clk nh s2"
      using assms(2) by (simp add: tick_unfold p2 nh)
    have "\<not> tickCollision clk s"
      using False nowall by (simp add: tickCollision_def p2 nh)
    with m moveSnake_effect [OF f(5), of clk nh] f(1) show ?thesis by auto
  qed
qed

text \<open>
  A zen session for C9 on a \<open>3 \<times> 3\<close> grid: after one move the wrapped head meets the
  tail on every tick. With the grace counter at \<open>-1\<close> the tick is still absorbed.
\<close>

theorem zen_never_gameover_witness:
  "run [SetGridSize 3 3, StartGame zen env0, Tick clk0 150, Tick clk0 150, Tick clk0 150,
        Tick clk0 150] (createInitialState env0) = Inr (zen_blocked (-1))
   \<and> phase (zen_blocked (-1)) = playing \<and> mode (zen_blocked (-1)) = zen
   \<and> 0 < gridWidth (zen_blocked (-1)) \<and> 0 < gridHeight (zen_blocked (-1))
   \<and> gracePeriodTicks (zen_blocked (-1)) = -1
   \<and> tickCollision clk0 (zen_blocked (-1))
   \<and> tick clk0 150 (zen_blocked (-1)) = Inr (zen_blocked (-2))
   \<and> phase (zen_blocked (-2)) = playing
   \<and> positions (snake (zen_blocked (-2))) = positions (snake (zen_blocked (-1)))"
proof -
  have f: "phase (zen_blocked (-1)) = playing" "mode (zen_blocked (-1)) = zen"
    "0 < gridWidth (zen_blocked (-1))" "0 < gridHeight (zen_blocked (-1))"
    "gracePeriodTicks (zen_blocked (-1)) = -1"
    by (simp_all add: zen_blocked_def zen_moved_def zen_started_def)
  have t: "tick clk0 150 (zen_blocked (-1)) = Inr (zen_blocked (-2))"
    using zen_stays_blocked [of "-1"] by simp
  from zen_never_gameover [OF zen_run_example f(1-4), of clk0 150] zen_run_example f
       zen_blocked_collides [of "-1"]
  show ?thesis by (simp add: t)
qed

lemma tick_buffer:
  assumes "phase s = playing" and "tick clk deltaMs s = Inr s'"
  shows "directionBuffer s' = tl (directionBuffer s) \<and> direction s' = appliedDirection s"
proof (cases "snake s = []")
  case True
  with assms show ?thesis by (simp add: tick_empty_snake)
next
  case False
  from tick_effect [OF assms(1) False, of clk deltaMs] assms(2) show ?thesis by auto
qed

text \<open>
  Claim C5, as amended. \<open>setDirection dir\<close> changes nothing when the phase is not
  playing, or \<open>dir\<close> is the opposite of the reference direction, or \<open>dir\<close> is the
  reference direction. Otherwise \<open>dir\<close> is appended to the buffer if the buffer holds
  fewer than two directions, and dropped (nothing changes) if it already holds two. In every
  reachable state the buffer holds at most two directions, and a tick in the playing phase
  takes the oldest one: it is removed from the buffer and becomes the direction unless it is
  the opposite of the current direction.
\<close>

theorem setDirection_buffer:
  "(phase s \<noteq> playing \<or> OPPOSITE_DIRECTION dir = refDirection s \<or> dir = refDirection s
      \<longrightarrow> setDirection dir s = s)
   \<and> (phase s = playing \<and> OPPOSITE_DIRECTION dir \<noteq> refDirection s \<and> dir \<noteq> refDirection s
      \<longrightarrow> setDirection dir s =
            (if length (directionBuffer s) < 2
             then s\<lparr>directionBuffer := directionBuffer s @ [dir]\<rparr> else s))
   \<and> (run cs (createInitialState env) = Inr t \<longrightarrow> length (directionBuffer t) \<le> 2)
   \<and> (phase t = playing \<and> directionBuffer t = d # rest \<and> tick clk deltaMs t = Inr t'
      \<longrightarrow> directionBuffer t' = rest
          \<and> direction t' = (if OPPOSITE_DIRECTION d \<noteq> direction t then d else direction t))"
proof (intro conjI impI)
  assume "phase s \<noteq> playing \<or> OPPOSITE_DIRECTION dir = refDirection s \<or> dir = refDirection s"
  then show "setDirection dir s = s" by (auto simp: setDirection_eq)
next
  assume "phase s = playing \<and> OPPOSITE_DIRECTION dir \<noteq> refDirection s \<and> dir \<noteq> refDirection s"
  then show "setDirection dir s =
            (if length (directionBuffer s) < 2
             then s\<lparr>directionBuffer := directionBuffer s @ [dir]\<rparr> else s)"
    by (simp add: setDirection_eq)
next
  assume "run cs (createInitialState env) = Inr t"
  with initial_inv have "engineInv t" by (rule run_inv)
  then show "length (directionBuffer t) \<le> 2" by (simp add: engineInv_def)
next
  assume a: "phase t = playing \<and> directionBuffer t = d # rest \<and> tick clk deltaMs t = Inr t'"
  with tick_buffer [of t clk deltaMs t']
  have "directionBuffer t' = tl (directionBuffer t)" "direction t' = appliedDirection t"
    by simp_all
  with a show "directionBuffer t' = rest" by simp
  from a \<open>direction t' = appliedDirection t\<close>
  show "direction t' = (if OPPOSITE_DIRECTION d \<noteq> direction t then d else direction t)"
    by (simp add: appliedDirection_def)
qed

text \<open>
  Claim C5, as stated, fails in a reachable state: after \<open>UP\<close> and \<open>LEFT\<close> are buffered,
  \<open>DOWN\<close> is neither the reference direction \<open>LEFT\<close> nor its opposite, the phase is
  playing, and yet \<open>DOWN\<close> is not appended.
\<close>

theorem setDirection_full_buffer_drops:
  "run [SetGridSize 4 4, StartGame classic env0, SetDirection UP, SetDirection LEFT]
     (createInitialState env0) = Inr full_buffer
   \<and> phase full_buffer = playing
   \<and> refDirection full_buffer = LEFT
   \<and> OPPOSITE_DIRECTION DOWN \<noteq> refDirection full_buffer
   \<and> DOWN \<noteq> refDirection full_buffer
   \<and> directionBuffer full_buffer = [UP, LEFT]
   \<and> setDirection DOWN full_buffer = full_buffer
   \<and> directionBuffer (setDirection DOWN full_buffer) \<noteq> directionBuffer full_buffer @ [DOWN]"
proof -
  have "phase full_buffer = playing
   \<and> refDirection full_buffer = LEFT
   \<and> OPPOSITE_DIRECTION DOWN \<noteq> refDirection full_buffer
   \<and> DOWN \<noteq> refDirection full_buffer
   \<and> directionBuffer full_buffer = [UP, LEFT]
   \<and> setDirection DOWN full_buffer = full_buffer
   \<and> directionBuffer (setDirection DOWN full_buffer) \<noteq> directionBuffer full_buffer @ [DOWN]"
    by (simp add: full_buffer_def started_def setDirection_eq refDirection_def)
  with full_buffer_run show ?thesis by (rule conjI)
qed

lemma full_buffer_tick_example: "tick clk0 100 full_buffer = Inr full_buffer_tick"
  by (simp add: tick_eval_defs started_def full_buffer_def full_buffer_tick_def
        start_snake_def clk0_def)

text \<open>
  Instances for C5: a rejected reversal, an accepted input, a reachable state with a full
  buffer, and the tick that takes the oldest input from it.
\<close>

theorem setDirection_buffer_witness:
  "OPPOSITE_DIRECTION LEFT = refDirection (started classic)
   \<and> setDirection LEFT (started classic) = started classic
   \<and> phase (started classic) = playing
   \<and> OPPOSITE_DIRECTION UP \<noteq> refDirection (started classic)
   \<and> UP \<noteq> refDirection (started classic)
   \<and> setDirection UP (started classic) = (started classic)\<lparr>directionBuffer := [UP]\<rparr>
   \<and> run [SetGridSize 4 4, StartGame classic env0, SetDirection UP, SetDirection LEFT]
         (createInitialState env0) = Inr full_buffer
   \<and> length (directionBuffer full_buffer) \<le> 2
   \<and> phase full_buffer = playing \<and> directionBuffer full_buffer = UP # [LEFT]
   \<and> tick clk0 100 full_buffer = Inr full_buffer_tick
   \<and> directionBuffer full_buffer_tick = [LEFT] \<and> direction full_buffer_tick = UP"
proof -
  have f: "OPPOSITE_DIRECTION LEFT = refDirection (started classic)"
    "phase (started classic) = playing"
    "OPPOSITE_DIRECTION UP \<noteq> refDirection (started classic)"
    "UP \<noteq> refDirection (started classic)"
    "directionBuffer (started classic) = []"
    "direction full_buffer = RIGHT"
    "phase full_buffer = playing" "directionBuffer full_buffer = UP # [LEFT]"
    by (simp_all add: started_def full_buffer_def refDirection_def)
  from setDirection_buffer [of "started classic" LEFT
         "[SetGridSize 4 4, StartGame classic env0, SetDirection UP, SetDirection LEFT]" env0
         full_buffer UP "[LEFT]" clk0 100 full_buffer_tick]
       setDirection_buffer [of "started classic" UP "[]" env0 full_buffer UP "[LEFT]" clk0 100
         full_buffer_tick]
       f full_buffer_run full_buffer_tick_example
  show ?thesis by simp
qed

end
